theory Spec2Isabelle
  imports Main "HOL-Library.Sublist"
begin

section \<open>Data model (convex/schema.ts)\<close>

text \<open>
  Strings are lists of 8-bit characters. A \<open>v.number()\<close> holding a token count is an
  \<open>int\<close> (see the batch summary for its arithmetic); a value of \<open>Date.now()\<close> (epoch
  milliseconds) is a \<open>nat\<close>. Document ids are
  natural numbers handed out by the table on insert.

  A thrown value is told apart by what \<open>error.message\<close> gives on it: \<open>JsError m\<close> is a
  value whose \<open>message\<close> is the string \<open>m\<close> (every \<open>Error\<close> object, and every \<open>throw\<close> of
  this code); \<open>ThrownNoMessage\<close> is a value other than \<open>undefined\<close> and \<open>null\<close> whose
  \<open>message\<close> is absent or falsy without being a string (a thrown string, for one);
  \<open>ThrownOtherMessage\<close> is such a value with a truthy \<open>message\<close> that is not a string;
  \<open>ThrownNullish\<close> is a thrown \<open>undefined\<close> or \<open>null\<close>.
\<close>

datatype js_error =
    JsError string
  | ThrownNoMessage
  | ThrownOtherMessage
  | ThrownNullish

datatype status = Pending | Processing | Completed | Failed

text \<open>
  \<open>configValidator\<close>. \<open>ownLogoData\<close> is \<open>v.optional(v.union(v.string(), v.null()))\<close>:
  \<open>None\<close> is an absent field, \<open>Some None\<close> is \<open>null\<close>, \<open>Some (Some s)\<close> a string.
\<close>

record ProcessingConfig =
  targetCountry :: string
  additionalContext :: string
  removeBranding :: bool
  addBrandingColors :: bool
  brandingColor :: string
  addOwnLogo :: bool
  ownLogoData :: "string option option"
  filenameFindPattern :: string
  filenameReplacePattern :: string
  modelVersion :: "string option"
  aspectRatio :: "string option"
  imageSize :: "string option"

text \<open>A document of the \<open>jobs\<close> table; \<open>jid\<close> is the system field \<open>_id\<close>.\<close>

record job =
  jid :: nat
  batchId :: "string option"
  sourceUrl :: string
  presetName :: "string option"
  config :: ProcessingConfig
  status :: status
  error :: "string option"
  generatedFileId :: "string option"
  generatedFileName :: "string option"
  generatedUrl :: "string option"
  generatedUrlWithExtension :: "string option"
  promptTokens :: "int option"
  candidateTokens :: "int option"
  totalTokens :: "int option"
  createdAt :: nat
  completedAt :: "nat option"

text \<open>
  A document of the \<open>presets\<close> table. The schema stores the configuration fields flat
  beside \<open>name\<close>, \<open>createdAt\<close> and \<open>updatedAt\<close>; here they are grouped in
  \<open>preset_config\<close>, field by field the same data.
\<close>

record preset =
  preset_id :: nat
  preset_name :: string
  preset_config :: ProcessingConfig
  preset_createdAt :: nat
  preset_updatedAt :: nat

text \<open>
  The database a mutation or query sees through \<open>ctx.db\<close>: both tables in insertion
  order (the order of \<open>_creationTime\<close>) and the next fresh id.
\<close>

record db =
  presets :: "preset list"
  jobs :: "job list"
  nextId :: nat

definition emptyDb :: db where
  "emptyDb = \<lparr>presets = [], jobs = [], nextId = 0\<rparr>"

section \<open>Database primitives (the Convex \<open>ctx.db\<close> interface)\<close>

text \<open>\<open>ctx.db.get(jobId)\<close>: the document with that id, or \<open>null\<close>.\<close>

definition db_get_job :: "db \<Rightarrow> nat \<Rightarrow> job option" where
  "db_get_job d i = find (\<lambda>j. jid j = i) (jobs d)"

text \<open>
  \<open>ctx.db.patch(jobId, fields)\<close>: a shallow merge of \<open>fields\<close> into the document, here the
  function \<open>f\<close>; it throws when no document has the id. A mutation returns its outcome
  together with the database it leaves behind.
\<close>

definition db_patch_job :: "db \<Rightarrow> nat \<Rightarrow> (job \<Rightarrow> job) \<Rightarrow> (js_error + unit) \<times> db" where
  "db_patch_job d i f =
     (case db_get_job d i of
        None \<Rightarrow> (Inl (JsError ''Update on nonexistent document ID''), d)
      | Some _ \<Rightarrow> (Inr (), d\<lparr>jobs := map (\<lambda>j. if jid j = i then f j else j) (jobs d)\<rparr>))"

text \<open>\<open>ctx.db.insert("jobs", doc)\<close>: appends the document under a fresh id and returns the id.\<close>

definition db_insert_job :: "db \<Rightarrow> (nat \<Rightarrow> job) \<Rightarrow> nat \<times> db" where
  "db_insert_job d mk = (nextId d, d\<lparr>jobs := jobs d @ [mk (nextId d)], nextId := Suc (nextId d)\<rparr>)"

text \<open>
  \<open>.withIndex("by_batchId", q => q.eq("batchId", b)).collect()\<close>: the jobs whose
  \<open>batchId\<close> is \<open>b\<close>, in creation order.
\<close>

definition by_batchId :: "db \<Rightarrow> string \<Rightarrow> job list" where
  "by_batchId d b = filter (\<lambda>j. batchId j = Some b) (jobs d)"

text \<open>\<open>.withIndex("by_status", q => q.eq("status", s)).collect()\<close>.\<close>

definition by_status :: "db \<Rightarrow> status \<Rightarrow> job list" where
  "by_status d s = filter (\<lambda>j. status j = s) (jobs d)"

text \<open>
  \<open>.withIndex("by_createdAt").order("desc").collect()\<close>: descending \<open>createdAt\<close>, ties in
  descending creation order.
\<close>

definition by_createdAt_desc :: "db \<Rightarrow> job list" where
  "by_createdAt_desc d = rev (sort_key createdAt (jobs d))"

section \<open>Job store (convex/publicJobs.ts and convex/jobs.ts)\<close>

text \<open>\<open>createJob\<close> of publicJobs.ts: the new job is pending and carries \<open>sourceName\<close> in \<open>generatedFileName\<close>.\<close>

definition createJob ::
  "db \<Rightarrow> nat \<Rightarrow> string \<Rightarrow> string \<Rightarrow> ProcessingConfig \<Rightarrow> string option \<Rightarrow> string option \<Rightarrow> nat \<times> db" where
  "createJob d now src sourceName cfg pn b =
     db_insert_job d (\<lambda>i. \<lparr>jid = i, batchId = b, sourceUrl = src, presetName = pn, config = cfg,
        status = Pending, error = None, generatedFileId = None, generatedFileName = Some sourceName,
        generatedUrl = None, generatedUrlWithExtension = None, promptTokens = None,
        candidateTokens = None, totalTokens = None, createdAt = now, completedAt = None\<rparr>)"

text \<open>\<open>create\<close> of jobs.ts (internal): as above, with no file name.\<close>

definition jobs_create ::
  "db \<Rightarrow> nat \<Rightarrow> string \<Rightarrow> ProcessingConfig \<Rightarrow> string option \<Rightarrow> string option \<Rightarrow> nat \<times> db" where
  "jobs_create d now src cfg pn b =
     db_insert_job d (\<lambda>i. \<lparr>jid = i, batchId = b, sourceUrl = src, presetName = pn, config = cfg,
        status = Pending, error = None, generatedFileId = None, generatedFileName = None,
        generatedUrl = None, generatedUrlWithExtension = None, promptTokens = None,
        candidateTokens = None, totalTokens = None, createdAt = now, completedAt = None\<rparr>)"

text \<open>The patches the status mutations apply, as functions on the job document.\<close>

definition patchProcessing :: "job \<Rightarrow> job" where
  "patchProcessing j = j\<lparr>status := Processing\<rparr>"

text \<open>\<open>setJobCompleted\<close> of publicJobs.ts: it has no \<open>generatedFileId\<close> argument.\<close>

definition patchJobCompleted ::
  "nat \<Rightarrow> string \<Rightarrow> string \<Rightarrow> int option \<Rightarrow> int option \<Rightarrow> int option \<Rightarrow> job \<Rightarrow> job" where
  "patchJobCompleted now url fname pt ct tt j =
     j\<lparr>status := Completed, generatedUrl := Some url, generatedFileName := Some fname,
       promptTokens := pt, candidateTokens := ct, totalTokens := tt, completedAt := Some now\<rparr>"

text \<open>\<open>setCompleted\<close> of jobs.ts (internal).\<close>

definition patchCompleted ::
  "nat \<Rightarrow> string \<Rightarrow> string \<Rightarrow> string \<Rightarrow> int option \<Rightarrow> int option \<Rightarrow> int option \<Rightarrow> job \<Rightarrow> job" where
  "patchCompleted now fileId fname url pt ct tt j =
     j\<lparr>status := Completed, generatedFileId := Some fileId, generatedFileName := Some fname,
       generatedUrl := Some url, promptTokens := pt, candidateTokens := ct, totalTokens := tt,
       completedAt := Some now\<rparr>"

definition patchFailed :: "nat \<Rightarrow> string \<Rightarrow> job \<Rightarrow> job" where
  "patchFailed now msg j = j\<lparr>status := Failed, error := Some msg, completedAt := Some now\<rparr>"

definition setJobProcessing :: "db \<Rightarrow> nat \<Rightarrow> (js_error + unit) \<times> db" where
  "setJobProcessing d i = db_patch_job d i patchProcessing"

definition setJobCompleted ::
  "db \<Rightarrow> nat \<Rightarrow> nat \<Rightarrow> string \<Rightarrow> string \<Rightarrow> int option \<Rightarrow> int option \<Rightarrow> int option \<Rightarrow> (js_error + unit) \<times> db" where
  "setJobCompleted d now i url fname pt ct tt = db_patch_job d i (patchJobCompleted now url fname pt ct tt)"

definition setJobFailed :: "db \<Rightarrow> nat \<Rightarrow> nat \<Rightarrow> string \<Rightarrow> (js_error + unit) \<times> db" where
  "setJobFailed d now i msg = db_patch_job d i (patchFailed now msg)"

definition jobs_getById :: "db \<Rightarrow> nat \<Rightarrow> job option" where
  "jobs_getById d i = db_get_job d i"

definition jobs_setProcessing :: "db \<Rightarrow> nat \<Rightarrow> (js_error + unit) \<times> db" where
  "jobs_setProcessing d i = db_patch_job d i patchProcessing"

definition jobs_setCompleted ::
  "db \<Rightarrow> nat \<Rightarrow> nat \<Rightarrow> string \<Rightarrow> string \<Rightarrow> string \<Rightarrow> int option \<Rightarrow> int option \<Rightarrow> int option \<Rightarrow> (js_error + unit) \<times> db" where
  "jobs_setCompleted d now i fileId fname url pt ct tt =
     db_patch_job d i (patchCompleted now fileId fname url pt ct tt)"

definition jobs_setFailed :: "db \<Rightarrow> nat \<Rightarrow> nat \<Rightarrow> string \<Rightarrow> (js_error + unit) \<times> db" where
  "jobs_setFailed d now i msg = db_patch_job d i (patchFailed now msg)"

text \<open>
  \<open>setJobCompletedWithFile\<close> of publicJobs.ts. \<open>fileUrl\<close> is what \<open>ctx.storage.getUrl\<close>
  returned (\<open>None\<close> for \<open>null\<close>). \<open>lastIndexOf\<close> is \<open>None\<close> where JavaScript gives -1,
  and \<open>substring(0, -1)\<close> is the empty string.
\<close>

definition lastIndexOf :: "string \<Rightarrow> string \<Rightarrow> nat option" where
  "lastIndexOf s pat =
     (case filter (\<lambda>i. prefix pat (drop i s)) (rev [0..<Suc (length s)]) of
        [] \<Rightarrow> None
      | i # _ \<Rightarrow> Some i)"

definition urlWithExtension :: "string option \<Rightarrow> string \<Rightarrow> string option" where
  "urlWithExtension fileUrl storageId =
     (case fileUrl of
        None \<Rightarrow> None
      | Some u \<Rightarrow>
          if u = [] then None
          else Some ((case lastIndexOf u ''/api/storage'' of None \<Rightarrow> [] | Some i \<Rightarrow> take i u)
                     @ ''/api/files?id='' @ storageId @ ''.png''))"

definition patchCompletedWithFile ::
  "nat \<Rightarrow> string option \<Rightarrow> string \<Rightarrow> string \<Rightarrow> int option \<Rightarrow> int option \<Rightarrow> int option \<Rightarrow> job \<Rightarrow> job" where
  "patchCompletedWithFile now fileUrl storageId fname pt ct tt j =
     j\<lparr>status := Completed, generatedFileId := Some storageId, generatedFileName := Some fname,
       generatedUrl := (case fileUrl of None \<Rightarrow> None | Some u \<Rightarrow> if u = [] then None else Some u),
       generatedUrlWithExtension := urlWithExtension fileUrl storageId,
       promptTokens := pt, candidateTokens := ct, totalTokens := tt, completedAt := Some now\<rparr>"

definition setJobCompletedWithFile ::
  "(string \<Rightarrow> string option) \<Rightarrow> db \<Rightarrow> nat \<Rightarrow> nat \<Rightarrow> string \<Rightarrow> string \<Rightarrow>
   int option \<Rightarrow> int option \<Rightarrow> int option \<Rightarrow> (js_error + unit) \<times> db" where
  "setJobCompletedWithFile storageGetUrl d now i storageId fname pt ct tt =
     db_patch_job d i (patchCompletedWithFile now (storageGetUrl storageId) storageId fname pt ct tt)"

subsection \<open>Histories of job-store calls\<close>

text \<open>
  A status operation on one job, with the arguments of the call and the clock reading
  the mutation takes. \<open>OpProcessing\<close> and \<open>OpFailed\<close> stand for the public mutations and
  for the internal \<open>setProcessing\<close> and \<open>setFailed\<close>, whose handlers are the same.
\<close>

datatype jobOp =
    OpProcessing
  | OpJobCompleted nat string string "int option" "int option" "int option"
  | OpCompleted nat string string string "int option" "int option" "int option"
  | OpCompletedWithFile nat "string option" string string "int option" "int option" "int option"
  | OpFailed nat string

fun applyOp :: "db \<Rightarrow> nat \<Rightarrow> jobOp \<Rightarrow> (js_error + unit) \<times> db" where
  "applyOp d i OpProcessing = setJobProcessing d i"
| "applyOp d i (OpJobCompleted now url fname pt ct tt) = setJobCompleted d now i url fname pt ct tt"
| "applyOp d i (OpCompleted now fileId fname url pt ct tt) = jobs_setCompleted d now i fileId fname url pt ct tt"
| "applyOp d i (OpCompletedWithFile now fileUrl sid fname pt ct tt) =
     setJobCompletedWithFile (\<lambda>_. fileUrl) d now i sid fname pt ct tt"
| "applyOp d i (OpFailed now msg) = setJobFailed d now i msg"

text \<open>The status each operation writes.\<close>

fun opTarget :: "jobOp \<Rightarrow> status" where
  "opTarget OpProcessing = Processing"
| "opTarget (OpJobCompleted _ _ _ _ _ _) = Completed"
| "opTarget (OpCompleted _ _ _ _ _ _ _) = Completed"
| "opTarget (OpCompletedWithFile _ _ _ _ _ _ _) = Completed"
| "opTarget (OpFailed _ _) = Failed"

text \<open>A call of the job store: one of the two creations, or a status operation on a job id.\<close>

datatype storeCall =
    CallCreateJob nat string string ProcessingConfig "string option" "string option"
  | CallCreate nat string ProcessingConfig "string option" "string option"
  | CallOp nat jobOp

fun runCall :: "db \<Rightarrow> storeCall \<Rightarrow> db" where
  "runCall d (CallCreateJob now src nm cfg pn b) = snd (createJob d now src nm cfg pn b)"
| "runCall d (CallCreate now src cfg pn b) = snd (jobs_create d now src cfg pn b)"
| "runCall d (CallOp i op) = snd (applyOp d i op)"

definition runCalls :: "db \<Rightarrow> storeCall list \<Rightarrow> db" where
  "runCalls d cs = foldl runCall d cs"

text \<open>
  The invariants of the specification's data model, read on one job document: each field
  is set if and only if the status is the one named. The artifact reference is
  \<open>generatedFileId\<close>.
\<close>

definition specInvariant :: "job \<Rightarrow> bool" where
  "specInvariant j \<longleftrightarrow>
     (error j \<noteq> None \<longleftrightarrow> status j = Failed) \<and>
     (generatedFileId j \<noteq> None \<longleftrightarrow> status j = Completed) \<and>
     (generatedFileName j \<noteq> None \<longleftrightarrow> status j = Completed) \<and>
     (completedAt j \<noteq> None \<longleftrightarrow> (status j = Completed \<or> status j = Failed))"

text \<open>The direction of those invariants that the mutations establish.\<close>

definition statusImpliesFields :: "job \<Rightarrow> bool" where
  "statusImpliesFields j \<longleftrightarrow>
     (status j = Failed \<longrightarrow> error j \<noteq> None) \<and>
     (status j = Completed \<longrightarrow>
        generatedFileName j \<noteq> None \<and> (generatedFileId j \<noteq> None \<or> generatedUrl j \<noteq> None)) \<and>
     (status j = Completed \<or> status j = Failed \<longrightarrow> completedAt j \<noteq> None)"

text \<open>
  The status of job \<open>i\<close> as a reader sees it before the first operation and after each
  one (\<open>None\<close> when the job does not exist).
\<close>

definition statusOf :: "db \<Rightarrow> nat \<Rightarrow> status option" where
  "statusOf d i = map_option status (db_get_job d i)"

fun observed :: "db \<Rightarrow> nat \<Rightarrow> jobOp list \<Rightarrow> status option list" where
  "observed d i [] = [statusOf d i]"
| "observed d i (op # ops) = statusOf d i # observed (snd (applyOp d i op)) i ops"

text \<open>
  The state machine of the specification: a status sequence that starts a prefix of
  pending, processing, completed or of pending, processing, failed takes only the allowed
  transitions, skips no state and leaves no terminal state. \<open>subseqOfLifecycle\<close> is the
  weaker reading, a subsequence of one of the two chains.
\<close>

definition followsLifecycle :: "status list \<Rightarrow> bool" where
  "followsLifecycle ss \<longleftrightarrow>
     prefix ss [Pending, Processing, Completed] \<or> prefix ss [Pending, Processing, Failed]"

definition subseqOfLifecycle :: "status list \<Rightarrow> bool" where
  "subseqOfLifecycle ss \<longleftrightarrow>
     subseq ss [Pending, Processing, Completed] \<or> subseq ss [Pending, Processing, Failed]"

section \<open>Job listing (listJobs)\<close>

text \<open>
  \<open>Array.prototype.slice(start, end)\<close> on integer arguments: a negative index counts from
  the end, and both are clamped to the array.
\<close>

definition js_slice :: "'a list \<Rightarrow> int \<Rightarrow> int \<Rightarrow> 'a list" where
  "js_slice xs start fin =
     (let len = int (length xs);
          k = (if start < 0 then max (len + start) 0 else min start len);
          e = (if fin < 0 then max (len + fin) 0 else min fin len)
      in take (nat (e - k)) (drop (nat k) xs))"

record listResult =
  r_jobs :: "job list"
  r_total :: nat
  r_limit :: int
  r_offset :: int

text \<open>
  \<open>listJobs\<close>. \<open>if (args.batchId)\<close> is a truthiness test: an absent and an empty batch id
  both take the next branch. A status is one of four non-empty literals, so
  \<open>if (args.status)\<close> holds exactly when it is given.
\<close>

definition listJobs :: "db \<Rightarrow> int option \<Rightarrow> int option \<Rightarrow> status option \<Rightarrow> string option \<Rightarrow> listResult" where
  "listJobs d limitArg offsetArg statusArg batchIdArg =
     (let limit = (case limitArg of None \<Rightarrow> 50 | Some l \<Rightarrow> l);
          offset = (case offsetArg of None \<Rightarrow> 0 | Some off \<Rightarrow> off);
          withoutBatch = (case statusArg of
                            Some st \<Rightarrow> by_status d st
                          | None \<Rightarrow> by_createdAt_desc d);
          allJobs = (case batchIdArg of
                       None \<Rightarrow> withoutBatch
                     | Some b \<Rightarrow> if b \<noteq> [] then by_batchId d b else withoutBatch)
      in \<lparr>r_jobs = js_slice allJobs offset (offset + limit), r_total = length allJobs,
          r_limit = limit, r_offset = offset\<rparr>)"

section \<open>Batch summary (getBatchSummary)\<close>

record batchSummary =
  s_batchId :: string
  s_total :: nat
  s_completed :: nat
  s_failed :: nat
  s_pending :: nat
  s_processing :: nat
  s_totalTokens :: int

text \<open>
  Numbers. A \<open>v.number()\<close> is a float64. A token count is modelled as an \<open>int\<close>: the
  integers are the values this model can hold, a fractional count, \<open>NaN\<close> and the
  infinities have no value in it. The \<open>+\<close> of JavaScript on two such numbers is the exact
  sum rounded to the nearest float64, ties to the even mantissa: \<open>ulp n\<close> is the spacing
  of the float64 values around \<open>n\<close> (1 below \<open>2^53\<close>, then doubling with each binary
  digit), and \<open>float64 i\<close> is the float64 nearest to \<open>i\<close> (magnitudes below \<open>2^1024\<close>,
  where the runtime would give an infinity, are meant).
\<close>

definition exactBound :: int where
  "exactBound = 9007199254740992"

fun ulp :: "nat \<Rightarrow> nat" where
  "ulp n = (if n < 9007199254740992 then 1 else 2 * ulp (n div 2))"

declare ulp.simps [simp del]

definition roundNearestEven :: "nat \<Rightarrow> nat" where
  "roundNearestEven n =
     (let u = ulp n; q = n div u; r = n mod u
      in if 2 * r < u then q * u
         else if u < 2 * r then (q + 1) * u
         else if even q then q * u else (q + 1) * u)"

definition float64 :: "int \<Rightarrow> int" where
  "float64 i = (if i < 0 then - int (roundNearestEven (nat (- i))) else int (roundNearestEven (nat i)))"

definition js_add :: "int \<Rightarrow> int \<Rightarrow> int" where
  "js_add a b = float64 (a + b)"

text \<open>\<open>j.totalTokens ?? 0\<close>.\<close>

definition tokensOrZero :: "job \<Rightarrow> int" where
  "tokensOrZero j = (case totalTokens j of None \<Rightarrow> 0 | Some n \<Rightarrow> n)"

definition getBatchSummary :: "db \<Rightarrow> string \<Rightarrow> batchSummary" where
  "getBatchSummary d b =
     (let js = by_batchId d b in
      \<lparr>s_batchId = b,
       s_total = length js,
       s_completed = length (filter (\<lambda>j. status j = Completed) js),
       s_failed = length (filter (\<lambda>j. status j = Failed) js),
       s_pending = length (filter (\<lambda>j. status j = Pending) js),
       s_processing = length (filter (\<lambda>j. status j = Processing) js),
       s_totalTokens = foldl (\<lambda>sum j. js_add sum (tokensOrZero j)) 0 js\<rparr>)"

text \<open>The sum the specification describes: \<open>totalTokens\<close> over the completed jobs of the batch only.\<close>

definition completedTokenSum :: "db \<Rightarrow> string \<Rightarrow> int" where
  "completedTokenSum d b = sum_list (map tokensOrZero (filter (\<lambda>j. status j = Completed) (by_batchId d b)))"

text \<open>
  The find pattern \<^verbatim>\<open>^.*-([^-.]+)\<close> followed by a backslash and \<^verbatim>\<open>..*$\<close> of the documentation's
  examples (a backslash cannot stand inside a string literal here), and a configuration
  using it.
\<close>

definition examplePattern :: string where
  "examplePattern = ''^.*-([^-.]+)'' @ [CHR 0x5C] @ ''..*$''"

definition cfg0 :: ProcessingConfig where
  "cfg0 = \<lparr>targetCountry = ''Japan'', additionalContext = '''', removeBranding = True,
     addBrandingColors = False, brandingColor = ''#00FF00'', addOwnLogo = False,
     ownLogoData = None, filenameFindPattern = examplePattern,
     filenameReplacePattern = ''neonLED_$1_TIMESTAMP.png'', modelVersion = None,
     aspectRatio = None, imageSize = None\<rparr>"

text \<open>
  One job of batch \<open>b1\<close> created, marked completed with 5 tokens, then marked failed:
  three calls of public mutations.
\<close>

definition dbCompletedThenFailed :: db where
  "dbCompletedThenFailed =
     (let d1 = snd (createJob emptyDb 1000 ''http://h/a-red.jpg'' ''a-red.jpg'' cfg0 None (Some ''b1''));
          d2 = snd (setJobCompleted d1 2000 0 ''http://s/1'' ''red.png'' (Some 2) (Some 3) (Some 5));
          d3 = snd (setJobFailed d2 3000 0 ''boom'')
      in d3)"

text \<open>Two jobs of batch \<open>b1\<close>: the first completed with 5 tokens, the second still pending.\<close>

definition dbOneCompleted :: db where
  "dbOneCompleted =
     (let d1 = snd (createJob emptyDb 1000 ''http://h/a-red.jpg'' ''a-red.jpg'' cfg0 None (Some ''b1''));
          d2 = snd (createJob d1 1001 ''http://h/a-blue.jpg'' ''a-blue.jpg'' cfg0 None (Some ''b1''));
          d3 = snd (setJobCompleted d2 2000 0 ''http://s/1'' ''red.png'' (Some 2) (Some 3) (Some 5))
      in d3)"

text \<open>
  Three jobs in two batches: in \<open>b1\<close> one completed with 5 tokens and one pending, in
  \<open>b2\<close> one completed with 7 tokens.
\<close>

definition dbTwoBatches :: db where
  "dbTwoBatches =
     (let d1 = snd (createJob emptyDb 1000 ''http://h/a-red.jpg'' ''a-red.jpg'' cfg0 None (Some ''b1''));
          d2 = snd (createJob d1 1001 ''http://h/a-blue.jpg'' ''a-blue.jpg'' cfg0 None (Some ''b1''));
          d3 = snd (createJob d2 1002 ''http://h/a-green.jpg'' ''a-green.jpg'' cfg0 None (Some ''b2''));
          d4 = snd (setJobCompleted d3 2000 0 ''http://s/1'' ''red.png'' (Some 2) (Some 3) (Some 5));
          d5 = snd (setJobCompleted d4 2001 2 ''http://s/2'' ''green.png'' (Some 3) (Some 4) (Some 7))
      in d5)"

text \<open>
  Three completed jobs of batch \<open>big\<close> whose token counts are \<open>2^53\<close>, 1 and 1, stored by
  the public \<open>setJobCompleted\<close>.
\<close>

definition dbLargeCounts :: db where
  "dbLargeCounts =
     (let d1 = snd (createJob emptyDb 1000 ''http://h/a.jpg'' ''a.jpg'' cfg0 None (Some ''big''));
          d2 = snd (createJob d1 1001 ''http://h/b.jpg'' ''b.jpg'' cfg0 None (Some ''big''));
          d3 = snd (createJob d2 1002 ''http://h/c.jpg'' ''c.jpg'' cfg0 None (Some ''big''));
          d4 = snd (setJobCompleted d3 2000 0 ''http://s/1'' ''a.png'' None None (Some 9007199254740992));
          d5 = snd (setJobCompleted d4 2001 1 ''http://s/2'' ''b.png'' None None (Some 1));
          d6 = snd (setJobCompleted d5 2002 2 ''http://s/3'' ''c.png'' None None (Some 1))
      in d6)"

text \<open>The patch each status operation applies to the job document.\<close>

fun opPatch :: "jobOp \<Rightarrow> job \<Rightarrow> job" where
  "opPatch OpProcessing = patchProcessing"
| "opPatch (OpJobCompleted now url fname pt ct tt) = patchJobCompleted now url fname pt ct tt"
| "opPatch (OpCompleted now fileId fname url pt ct tt) = patchCompleted now fileId fname url pt ct tt"
| "opPatch (OpCompletedWithFile now fileUrl sid fname pt ct tt) =
     patchCompletedWithFile now fileUrl sid fname pt ct tt"
| "opPatch (OpFailed now msg) = patchFailed now msg"

text \<open>A job created by the internal \<open>create\<close>, marked failed, then marked processing.\<close>

definition callsFailedThenProcessing :: "storeCall list" where
  "callsFailedThenProcessing =
     [CallCreate 1000 ''http://h/a-red.jpg'' cfg0 None None,
      CallOp 0 (OpFailed 2000 ''boom''),
      CallOp 0 OpProcessing]"

text \<open>The database holding one pending job, created by the internal \<open>create\<close>.\<close>

definition dbOnePending :: db where
  "dbOnePending = runCalls emptyDb [CallCreate 1000 ''http://h/a-red.jpg'' cfg0 None None]"

section \<open>Preset store (convex/publicPresets.ts and convex/presets.ts)\<close>

text \<open>\<open>.withIndex("by_name", q => q.eq("name", n))\<close>: the presets named \<open>n\<close>, in creation order.\<close>

definition by_name :: "db \<Rightarrow> string \<Rightarrow> preset list" where
  "by_name d n = filter (\<lambda>p. preset_name p = n) (presets d)"

text \<open>\<open>.unique()\<close>: \<open>null\<close> for no result, the document for one, an exception for more.\<close>

definition unique :: "'a list \<Rightarrow> js_error + 'a option" where
  "unique xs =
     (case xs of
        [] \<Rightarrow> Inr None
      | [x] \<Rightarrow> Inr (Some x)
      | _ # _ # _ \<Rightarrow> Inl (JsError ''unique() query returned more than one result''))"

text \<open>\<open>String.prototype.trim\<close>, on the white space an 8-bit character can hold.\<close>

definition js_whitespace :: "char \<Rightarrow> bool" where
  "js_whitespace c \<longleftrightarrow> (of_char c :: nat) \<in> {9, 10, 11, 12, 13, 32, 160}"

definition js_trim :: "string \<Rightarrow> string" where
  "js_trim s = rev (dropWhile js_whitespace (rev (dropWhile js_whitespace s)))"

definition db_insert_preset :: "db \<Rightarrow> (nat \<Rightarrow> preset) \<Rightarrow> nat \<times> db" where
  "db_insert_preset d mk =
     (nextId d, d\<lparr>presets := presets d @ [mk (nextId d)], nextId := Suc (nextId d)\<rparr>)"

text \<open>
  \<open>ctx.db.patch(existing._id, fields)\<close> on the presets table; the id comes from a document
  just read, so the patch finds it.
\<close>

definition db_patch_preset :: "db \<Rightarrow> nat \<Rightarrow> (preset \<Rightarrow> preset) \<Rightarrow> db" where
  "db_patch_preset d i f = d\<lparr>presets := map (\<lambda>p. if preset_id p = i then f p else p) (presets d)\<rparr>"

definition quoted :: "string \<Rightarrow> string" where
  "quoted s = [CHR 0x22] @ s @ [CHR 0x22]"

definition duplicateNameMessage :: "string \<Rightarrow> string" where
  "duplicateNameMessage n = ''Preset with name '' @ quoted n @ '' already exists''"

definition notFoundMessage :: "string \<Rightarrow> string" where
  "notFoundMessage n = ''Preset '' @ quoted n @ '' not found''"

text \<open>\<open>create\<close> of presets.ts (internal): existence check, then insert.\<close>

definition presets_create :: "db \<Rightarrow> nat \<Rightarrow> string \<Rightarrow> ProcessingConfig \<Rightarrow> (js_error + nat) \<times> db" where
  "presets_create d now name cfg =
     (case unique (by_name d name) of
        Inl e \<Rightarrow> (Inl e, d)
      | Inr (Some existing) \<Rightarrow> (Inl (JsError (duplicateNameMessage name)), d)
      | Inr None \<Rightarrow>
          (case db_insert_preset d (\<lambda>i. \<lparr>preset_id = i, preset_name = name, preset_config = cfg,
                  preset_createdAt = now, preset_updatedAt = now\<rparr>) of
             (i, d') \<Rightarrow> (Inr i, d')))"

text \<open>\<open>createPreset\<close> of publicPresets.ts: the name check, then the same handler body.\<close>

definition createPreset :: "db \<Rightarrow> nat \<Rightarrow> string \<Rightarrow> ProcessingConfig \<Rightarrow> (js_error + nat) \<times> db" where
  "createPreset d now name cfg =
     (if name = [] \<or> length (js_trim name) = 0
      then (Inl (JsError ''Preset name cannot be empty''), d)
      else presets_create d now name cfg)"

text \<open>
  The fields \<open>{...args.config, updatedAt}\<close> merged into the stored document. An argument
  object holds no \<open>undefined\<close>: an optional field absent from \<open>args.config\<close> is no key of
  the spread, and the patch leaves the stored value of such a field as it was.
\<close>

definition patched :: "'a option \<Rightarrow> 'a option \<Rightarrow> 'a option" where
  "patched new old = (case new of None \<Rightarrow> old | Some v \<Rightarrow> Some v)"

definition mergeConfig :: "ProcessingConfig \<Rightarrow> ProcessingConfig \<Rightarrow> ProcessingConfig" where
  "mergeConfig old new =
     new\<lparr>ownLogoData := patched (ownLogoData new) (ownLogoData old),
         modelVersion := patched (modelVersion new) (modelVersion old),
         aspectRatio := patched (aspectRatio new) (aspectRatio old),
         imageSize := patched (imageSize new) (imageSize old)\<rparr>"

definition patchPreset :: "nat \<Rightarrow> ProcessingConfig \<Rightarrow> preset \<Rightarrow> preset" where
  "patchPreset now cfg p = p\<lparr>preset_config := mergeConfig (preset_config p) cfg, preset_updatedAt := now\<rparr>"

text \<open>\<open>updatePreset\<close> of publicPresets.ts; \<open>update\<close> of presets.ts has the same handler.\<close>

definition updatePreset :: "db \<Rightarrow> nat \<Rightarrow> string \<Rightarrow> ProcessingConfig \<Rightarrow> (js_error + unit) \<times> db" where
  "updatePreset d now name cfg =
     (case unique (by_name d name) of
        Inl e \<Rightarrow> (Inl e, d)
      | Inr None \<Rightarrow> (Inl (JsError (notFoundMessage name)), d)
      | Inr (Some existing) \<Rightarrow> (Inr (), db_patch_preset d (preset_id existing) (patchPreset now cfg)))"

definition internal_presets_update :: "db \<Rightarrow> nat \<Rightarrow> string \<Rightarrow> ProcessingConfig \<Rightarrow> (js_error + unit) \<times> db" where
  "internal_presets_update = updatePreset"

text \<open>A configuration that names a model version, and a database with one preset holding it.\<close>

definition cfgPro :: ProcessingConfig where
  "cfgPro = cfg0\<lparr>modelVersion := Some ''gemini-3-pro-image-preview'', imageSize := Some ''2K''\<rparr>"

definition dbOnePreset :: db where
  "dbOnePreset = snd (createPreset emptyDb 1000 ''japan-urban'' cfgPro)"

section \<open>Filename deriver (convex/utils/filenameUtils.ts)\<close>

subsection \<open>Strings and numbers\<close>

text \<open>\<open>Date.now().toString()\<close>: the decimal digits of a natural number.\<close>

definition isDigit :: "char \<Rightarrow> bool" where
  "isDigit c \<longleftrightarrow> 48 \<le> (of_char c :: nat) \<and> (of_char c :: nat) \<le> 57"

definition digitVal :: "char \<Rightarrow> nat" where
  "digitVal c = (of_char c :: nat) - 48"

definition digitChar :: "nat \<Rightarrow> char" where
  "digitChar n = ''0123456789'' ! n"

fun showNat :: "nat \<Rightarrow> string" where
  "showNat n = (if n < 10 then [digitChar n] else showNat (n div 10) @ [digitChar (n mod 10)])"

declare showNat.simps [simp del]

text \<open>\<open>String.prototype.split\<close> on a one-character separator; the result is never empty.\<close>

fun js_split :: "char \<Rightarrow> string \<Rightarrow> string list" where
  "js_split sep [] = [[]]"
| "js_split sep (c # cs) =
     (if c = sep then [] # js_split sep cs
      else (case js_split sep cs of x # xs \<Rightarrow> (c # x) # xs | [] \<Rightarrow> [[c]]))"

text \<open>
  \<open>replacePattern.replace(/TIMESTAMP/g, timestamp)\<close>: every occurrence of the literal
  token, left to right, becomes \<open>timestamp\<close>. The replacement is a string of digits, in
  which \<open>$\<close> does not occur, so it is inserted as it is.
\<close>

fun replaceTimestamp :: "string \<Rightarrow> string \<Rightarrow> string" where
  "replaceTimestamp ts [] = []"
| "replaceTimestamp ts (c # cs) =
     (if prefix ''TIMESTAMP'' (c # cs) then ts @ replaceTimestamp ts (drop 8 cs)
      else c # replaceTimestamp ts cs)"

text \<open>The token the first pass looks for.\<close>

definition timestampToken :: string where
  "timestampToken = ''TIMESTAMP''"

text \<open>\<open>/\.(png|jpg|jpeg|webp|gif)$/i.test(newName)\<close>.\<close>

definition toLowerAscii :: "char \<Rightarrow> char" where
  "toLowerAscii c = (if 65 \<le> (of_char c :: nat) \<and> (of_char c :: nat) \<le> 90 then char_of ((of_char c :: nat) + 32) else c)"

definition hasExtension :: "string \<Rightarrow> bool" where
  "hasExtension n \<longleftrightarrow>
     list_ex (\<lambda>e. suffix e (map toLowerAscii n)) [''.png'', ''.jpg'', ''.jpeg'', ''.webp'', ''.gif'']"

subsection \<open>The RegExp interface\<close>

text \<open>
  The result of a successful \<open>RegExp.prototype.exec\<close>: where the match starts, the matched
  text, the captures of groups 1, 2, ... (\<open>None\<close> for \<open>undefined\<close>) and the \<open>groups\<close>
  object: \<open>None\<close> when the pattern has no named group, otherwise the capture of each
  name.
\<close>

record rmatch =
  m_index :: nat
  m_text :: string
  m_captures :: "string option list"
  m_groups :: "(string \<times> string option) list option"

text \<open>
  The regular-expression engine of the JavaScript runtime, as the deriver uses it:
  \<open>new RegExp(pattern)\<close> either throws a SyntaxError (\<open>None\<close>) or gives a regular
  expression, and matching an expression without flags against a string gives the
  leftmost match or none. \<open>regex.test(s)\<close> succeeds exactly when \<open>exec\<close> finds a match.
\<close>

record 'r regexEngine =
  compile :: "string \<Rightarrow> 'r option"
  exec :: "'r \<Rightarrow> string \<Rightarrow> rmatch option"

text \<open>
  \<open>GetSubstitution\<close> of ECMAScript: the expansion of a replacement template for one
  match. \<open>$$\<close> is a dollar sign, \<open>$&\<close> the matched text, \<open>$`\<close> and \<open>$'\<close> the text before
  and after it, \<open>$n\<close> and \<open>$nn\<close> the capture of that number when there is such a group
  (two digits first; when they exceed the number of groups, one digit). When the pattern
  has named groups and a \<open>>\<close> follows, \<open>$<name>\<close> is the capture of that name, empty
  for a name the pattern has not or a group that did not take part. Anything else is
  copied.
\<close>

definition captureText :: "string option list \<Rightarrow> nat \<Rightarrow> string" where
  "captureText caps k = (case caps ! (k - 1) of None \<Rightarrow> [] | Some t \<Rightarrow> t)"

definition namedText :: "(string \<times> string option) list \<Rightarrow> string \<Rightarrow> string" where
  "namedText named nm = (case map_of named nm of Some (Some t) \<Rightarrow> t | _ \<Rightarrow> [])"

function getSubstitution :: "rmatch \<Rightarrow> string \<Rightarrow> string \<Rightarrow> string" where
  "getSubstitution m str [] = []"
| "getSubstitution m str [c] = [c]"
| "getSubstitution m str (c # d # rest) =
     (if c \<noteq> CHR ''$'' then c # getSubstitution m str (d # rest)
      else if d = CHR ''$'' then CHR ''$'' # getSubstitution m str rest
      else if d = CHR ''&'' then m_text m @ getSubstitution m str rest
      else if d = CHR 0x60 then take (m_index m) str @ getSubstitution m str rest
      else if d = CHR 0x27 then drop (m_index m + length (m_text m)) str @ getSubstitution m str rest
      else if isDigit d then
        (let n = length (m_captures m); one = digitVal d in
         case rest of
           [] \<Rightarrow> (if 1 \<le> one \<and> one \<le> n then captureText (m_captures m) one else [c, d])
         | e # rest' \<Rightarrow>
             if isDigit e \<and> one * 10 + digitVal e \<le> n
             then (if 1 \<le> one * 10 + digitVal e
                   then captureText (m_captures m) (one * 10 + digitVal e) else [c, d, e])
                  @ getSubstitution m str rest'
             else (if 1 \<le> one \<and> one \<le> n then captureText (m_captures m) one else [c, d])
                  @ getSubstitution m str rest)
      else if d = CHR ''<'' then
        (case m_groups m of
           None \<Rightarrow> c # d # getSubstitution m str rest
         | Some named \<Rightarrow>
             if CHR ''>'' \<in> set rest
             then namedText named (takeWhile (\<lambda>x. x \<noteq> CHR ''>'') rest)
                  @ getSubstitution m str (tl (dropWhile (\<lambda>x. x \<noteq> CHR ''>'') rest))
             else c # d # getSubstitution m str rest)
      else c # getSubstitution m str (d # rest))"
  by pat_completeness auto
termination
proof (relation "measure (\<lambda>(m, str, t). length t)")
  fix rest :: string
  have "length (tl (dropWhile (\<lambda>x. x \<noteq> CHR ''>'') rest)) \<le> length rest"
    using length_dropWhile_le [of "\<lambda>x. x \<noteq> CHR ''>''" rest] by simp
  then show "\<And>m str c d x2.
       ((m, str, tl (dropWhile (\<lambda>x. x \<noteq> CHR ''>'') rest)), m, str, c # d # rest)
       \<in> measure (\<lambda>(m, str, t). length t)"
    by simp
qed auto

text \<open>\<open>s.replace(regex, template)\<close> for a regular expression without the global flag.\<close>

definition js_replace :: "rmatch option \<Rightarrow> string \<Rightarrow> string \<Rightarrow> string" where
  "js_replace found s template =
     (case found of
        None \<Rightarrow> s
      | Some m \<Rightarrow>
          take (m_index m) s @ getSubstitution m s template @ drop (m_index m + length (m_text m)) s)"

subsection \<open>generateOutputFilename\<close>

text \<open>The working name: for a URL, the last path segment before any query string, or \<open>image\<close>.\<close>

definition workingName :: "string \<Rightarrow> string" where
  "workingName originalName =
     (if prefix ''http'' originalName
      then (let seg = hd (js_split CHR ''?'' (last (js_split CHR ''/'' originalName)))
            in if seg = [] then ''image'' else seg)
      else originalName)"

definition defaultName :: "nat \<Rightarrow> string" where
  "defaultName now = ''localized_'' @ showNat now @ ''.png''"

definition withExtension :: "string \<Rightarrow> string" where
  "withExtension newName = (if hasExtension newName then newName else newName @ ''.png'')"

text \<open>
  \<open>now\<close> is the value \<open>Date.now()\<close> returns; each path through the function reads the clock
  once. A SyntaxError of \<open>new RegExp\<close> is caught by the function's own \<open>try\<close> and leads to
  the fallback.
\<close>

definition generateOutputFilename :: "'r regexEngine \<Rightarrow> nat \<Rightarrow> string \<Rightarrow> string \<Rightarrow> string \<Rightarrow> string" where
  "generateOutputFilename eng now originalName findPattern replacePattern =
     (let filename = workingName originalName in
      if findPattern \<noteq> [] \<and> replacePattern \<noteq> [] then
        (case compile eng findPattern of
           None \<Rightarrow> defaultName now
         | Some regex \<Rightarrow>
             (case exec eng regex filename of
                None \<Rightarrow> defaultName now
              | Some m \<Rightarrow>
                  (let timestamp = showNat now;
                       preparedReplacement = replaceTimestamp timestamp replacePattern;
                       newName = js_replace (Some m) filename preparedReplacement
                   in withExtension newName)))
      else defaultName now)"

text \<open>
  \<open>getFilenameFromUrl\<close>. \<open>pathname\<close> stands for \<open>new URL(url).pathname\<close> of the runtime:
  \<open>None\<close> when the constructor throws.
\<close>

definition getFilenameFromUrl :: "(string \<Rightarrow> string option) \<Rightarrow> string \<Rightarrow> string" where
  "getFilenameFromUrl pathname url =
     (case pathname url of
        None \<Rightarrow> ''image''
      | Some path \<Rightarrow> (let filename = last (js_split CHR ''/'' path) in if filename = [] then ''image'' else filename))"

subsection \<open>A model of the regular expressions of the runtime\<close>

text \<open>
  The engine itself is not code of this repository. This model follows the ECMAScript
  pattern semantics (backtracking matchers with continuations) for the patterns built from
  literal characters, \<open>.\<close>, character classes, the escapes \<open>\d \w \s \t \n \v \f \r\<close>
  and escaped punctuation, groups, \<open>(?:\<close> groups, \<open>|\<close>, \<open>^\<close>, \<open>$\<close> and the quantifiers
  \<open>* + ?\<close>, greedy or lazy. \<open>js_compile\<close> gives \<open>None\<close> for a pattern with a syntax error
  and also for a well-formed pattern outside this fragment (an opening brace, back
  references, look-around, named groups, other letter and digit escapes, a class escape
  as the end of a range); it is used below only on patterns inside the fragment. The
  repetition matcher counts its recursion down from the minimum plus the length of the
  remaining input plus one: each round either uses up one of the required repetitions or
  consumes input, so the count is never exhausted.
\<close>

text \<open>
  A class item is a character, a range, or one of \<open>\d \w \s\<close> (\<open>True\<close>) and their
  complements \<open>\D \W \S\<close> (\<open>False\<close>). In a pattern, \<open>RGroup n\<close> is the capturing group
  number \<open>n\<close>, \<open>RBol\<close> and \<open>REol\<close> are \<open>^\<close> and \<open>$\<close> (no multiline flag), and
  \<open>RRep min max greedy\<close> is a quantifier with \<open>None\<close> for no upper bound.
\<close>

datatype classItem = CChar char | CRange char char | CDigit bool | CWord bool | CSpace bool

datatype regex =
    REmpty
  | RChar char
  | RAny
  | RClass bool "classItem list"
  | RBol
  | REol
  | RGroup nat regex
  | RCat regex regex
  | RAlt regex regex
  | RRep nat "nat option" bool regex

definition isWordChar :: "char \<Rightarrow> bool" where
  "isWordChar c \<longleftrightarrow>
     (let n = (of_char c :: nat) in
      (48 \<le> n \<and> n \<le> 57) \<or> (65 \<le> n \<and> n \<le> 90) \<or> (97 \<le> n \<and> n \<le> 122) \<or> n = 95)"

definition isLineTerminator :: "char \<Rightarrow> bool" where
  "isLineTerminator c \<longleftrightarrow> (of_char c :: nat) = 10 \<or> (of_char c :: nat) = 13"

fun classItemMatches :: "classItem \<Rightarrow> char \<Rightarrow> bool" where
  "classItemMatches (CChar a) c \<longleftrightarrow> c = a"
| "classItemMatches (CRange a b) c \<longleftrightarrow> (of_char a :: nat) \<le> of_char c \<and> (of_char c :: nat) \<le> of_char b"
| "classItemMatches (CDigit pos) c \<longleftrightarrow> (isDigit c = pos)"
| "classItemMatches (CWord pos) c \<longleftrightarrow> (isWordChar c = pos)"
| "classItemMatches (CSpace pos) c \<longleftrightarrow> (js_whitespace c = pos)"

text \<open>
  A match state is the end index reached and the captures so far; a matcher takes a state
  and a continuation and returns the final state of the first successful way through,
  trying the alternatives in the order of the ECMAScript semantics.
\<close>

type_synonym mstate = "nat \<times> string option list"

type_synonym matcher = "mstate \<Rightarrow> (mstate \<Rightarrow> mstate option) \<Rightarrow> mstate option"

fun groupsOf :: "regex \<Rightarrow> nat list" where
  "groupsOf (RGroup n r) = n # groupsOf r"
| "groupsOf (RCat a b) = groupsOf a @ groupsOf b"
| "groupsOf (RAlt a b) = groupsOf a @ groupsOf b"
| "groupsOf (RRep mn mx g r) = groupsOf r"
| "groupsOf _ = []"

definition clearCaptures :: "nat list \<Rightarrow> string option list \<Rightarrow> string option list" where
  "clearCaptures gs caps = fold (\<lambda>g cs. cs[g - 1 := None]) gs caps"

definition oneChar :: "(char \<Rightarrow> bool) \<Rightarrow> string \<Rightarrow> matcher" where
  "oneChar p inp x c =
     (if fst x < length inp \<and> p (inp ! fst x) then c (Suc (fst x), snd x) else None)"

text \<open>
  \<open>RepeatMatcher\<close>: the captures of the groups inside the body are cleared before each
  round, a round of an optional repetition that consumes nothing is rejected, and a greedy
  quantifier tries another round before the continuation, a lazy one after it. The third
  argument is the fuel.
\<close>

fun repeatMatcher :: "matcher \<Rightarrow> nat list \<Rightarrow> nat \<Rightarrow> nat \<Rightarrow> nat option \<Rightarrow> bool \<Rightarrow> matcher" where
  "repeatMatcher m gs 0 mn mx greedy x c = None"
| "repeatMatcher m gs (Suc fuel) mn mx greedy x c =
     (if mx = Some 0 then c x
      else
        (let d = (\<lambda>y. if mn = 0 \<and> fst y = fst x then None
                       else repeatMatcher m gs fuel (mn - 1) (map_option (\<lambda>k. k - 1) mx) greedy y c);
             xr = (fst x, clearCaptures gs (snd x))
         in if mn \<noteq> 0 then m xr d
            else if \<not> greedy then (case c x of Some z \<Rightarrow> Some z | None \<Rightarrow> m xr d)
            else (case m xr d of Some z \<Rightarrow> Some z | None \<Rightarrow> c x)))"

primrec matchR :: "regex \<Rightarrow> string \<Rightarrow> matcher" where
  "matchR REmpty inp = (\<lambda>x c. c x)"
| "matchR (RChar a) inp = oneChar (\<lambda>ch. ch = a) inp"
| "matchR RAny inp = oneChar (\<lambda>ch. \<not> isLineTerminator ch) inp"
| "matchR (RClass neg items) inp = oneChar (\<lambda>ch. list_ex (\<lambda>it. classItemMatches it ch) items \<noteq> neg) inp"
| "matchR RBol inp = (\<lambda>x c. if fst x = 0 then c x else None)"
| "matchR REol inp = (\<lambda>x c. if fst x = length inp then c x else None)"
| "matchR (RGroup n r) inp =
     (\<lambda>x c. matchR r inp x
        (\<lambda>y. c (fst y, (snd y)[n - 1 := Some (take (fst y - fst x) (drop (fst x) inp))])))"
| "matchR (RCat a b) inp = (\<lambda>x c. matchR a inp x (\<lambda>y. matchR b inp y c))"
| "matchR (RAlt a b) inp =
     (\<lambda>x c. case matchR a inp x c of Some z \<Rightarrow> Some z | None \<Rightarrow> matchR b inp x c)"
| "matchR (RRep mn mx greedy r) inp =
     (\<lambda>x c. repeatMatcher (matchR r inp) (groupsOf r) (mn + (length inp - fst x) + 1) mn mx greedy x c)"

subsection \<open>Parsing a pattern\<close>

text \<open>
  A pattern is read in two passes: into tokens (escapes and character classes resolved),
  then into an expression by a stack of open groups. Groups are numbered by their opening
  parenthesis, left to right. A quantifier applies to the atom before it; after \<open>^\<close>,
  \<open>$\<close>, another quantifier, or nothing it is a syntax error, as are an unmatched
  parenthesis, an unterminated class and a range out of order.
\<close>

datatype token =
    TAtom regex | TAssert regex | TOpen | TOpenNamed string | TOpenNC | TClose | TBar
  | TQuant nat "nat option" bool

definition backslash :: char where
  "backslash = CHR 0x5C"

definition escapeItem :: "char \<Rightarrow> classItem option" where
  "escapeItem e =
     (if e = CHR ''d'' then Some (CDigit True) else if e = CHR ''D'' then Some (CDigit False)
      else if e = CHR ''w'' then Some (CWord True) else if e = CHR ''W'' then Some (CWord False)
      else if e = CHR ''s'' then Some (CSpace True) else if e = CHR ''S'' then Some (CSpace False)
      else if e = CHR ''t'' then Some (CChar (CHR 0x09))
      else if e = CHR ''n'' then Some (CChar (CHR 0x0A))
      else if e = CHR ''v'' then Some (CChar (CHR 0x0B))
      else if e = CHR ''f'' then Some (CChar (CHR 0x0C))
      else if e = CHR ''r'' then Some (CChar (CHR 0x0D))
      else if isWordChar e \<or> 128 \<le> (of_char e :: nat) then None
      else Some (CChar e))"

definition itemAtom :: "classItem \<Rightarrow> regex" where
  "itemAtom it = (case it of CChar a \<Rightarrow> RChar a | _ \<Rightarrow> RClass False [it])"

definition consTok :: "token \<Rightarrow> token list option \<Rightarrow> token list option" where
  "consTok t r = map_option (Cons t) r"

definition quantOf :: "char \<Rightarrow> bool \<Rightarrow> token" where
  "quantOf q greedy =
     (if q = CHR ''*'' then TQuant 0 None greedy
      else if q = CHR ''+'' then TQuant 1 None greedy
      else TQuant 0 (Some 1) greedy)"

text \<open>A group name: letters, digits, \<open>_\<close> and \<open>$\<close>, not starting with a digit.\<close>

definition validGroupName :: "string \<Rightarrow> bool" where
  "validGroupName nm \<longleftrightarrow>
     nm \<noteq> [] \<and> list_all (\<lambda>c. isWordChar c \<or> c = CHR ''$'') nm \<and> \<not> isDigit (hd nm)"

fun tokenize :: "string \<Rightarrow> token list option"
  and tokenizeClass :: "bool \<Rightarrow> classItem list \<Rightarrow> string \<Rightarrow> token list option"
  and tokenizeName :: "string \<Rightarrow> string \<Rightarrow> token list option" where
  "tokenize [] = Some []"
| "tokenize (c # cs) =
     (if c = backslash then
        (case cs of
           [] \<Rightarrow> None
         | e # cs' \<Rightarrow> (case escapeItem e of None \<Rightarrow> None | Some it \<Rightarrow> consTok (TAtom (itemAtom it)) (tokenize cs')))
      else if c = CHR ''['' then
        (case cs of
           [] \<Rightarrow> None
         | e # cs' \<Rightarrow> if e = CHR ''^'' then tokenizeClass True [] cs' else tokenizeClass False [] (e # cs'))
      else if c = CHR ''('' then
        (case cs of
           e # f # cs' \<Rightarrow>
             if e = CHR ''?''
             then (if f = CHR '':'' then consTok TOpenNC (tokenize cs')
                   else if f = CHR ''<'' then tokenizeName [] cs'
                   else None)
             else consTok TOpen (tokenize (e # f # cs'))
         | _ \<Rightarrow> consTok TOpen (tokenize cs))
      else if c = CHR '')'' then consTok TClose (tokenize cs)
      else if c = CHR ''|'' then consTok TBar (tokenize cs)
      else if c = CHR ''*'' \<or> c = CHR ''+'' \<or> c = CHR ''?'' then
        (case cs of
           [] \<Rightarrow> Some [quantOf c True]
         | e # cs' \<Rightarrow>
             if e = CHR ''?'' then consTok (quantOf c False) (tokenize cs')
             else consTok (quantOf c True) (tokenize (e # cs')))
      else if c = CHR ''^'' then consTok (TAssert RBol) (tokenize cs)
      else if c = CHR ''$'' then consTok (TAssert REol) (tokenize cs)
      else if c = CHR ''.'' then consTok (TAtom RAny) (tokenize cs)
      else if c = CHR ''{'' then None
      else consTok (TAtom (RChar c)) (tokenize cs))"
| "tokenizeClass neg items [] = None"
| "tokenizeClass neg items (c # cs) =
     (if c = CHR '']'' then consTok (TAtom (RClass neg (rev items))) (tokenize cs)
      else if c = backslash then
        (case cs of
           [] \<Rightarrow> None
         | e # cs' \<Rightarrow>
             (case escapeItem e of
                None \<Rightarrow> None
              | Some it \<Rightarrow>
                  (case cs' of
                     d # y # cs'' \<Rightarrow>
                       if d = CHR ''-'' \<and> y \<noteq> CHR '']'' then None
                       else tokenizeClass neg (it # items) (d # y # cs'')
                   | _ \<Rightarrow> tokenizeClass neg (it # items) cs')))
      else
        (case cs of
           d # y # cs' \<Rightarrow>
             if d = CHR ''-'' \<and> y \<noteq> CHR '']'' then
               (if y = backslash \<or> (of_char y :: nat) < of_char c then None
                else tokenizeClass neg (CRange c y # items) cs')
             else tokenizeClass neg (CChar c # items) (d # y # cs')
         | _ \<Rightarrow> tokenizeClass neg (CChar c # items) cs))"
| "tokenizeName acc [] = None"
| "tokenizeName acc (c # cs) =
     (if c = CHR ''>''
      then (if validGroupName (rev acc) then consTok (TOpenNamed (rev acc)) (tokenize cs) else None)
      else tokenizeName (c # acc) cs)"

type_synonym frame = "nat option \<times> regex list \<times> regex list \<times> bool"

text \<open>A compiled pattern: the expression, the number of groups and the named groups with their numbers.\<close>

type_synonym compiled = "regex \<times> nat \<times> (string \<times> nat) list"

fun seqOf :: "regex list \<Rightarrow> regex" where
  "seqOf [] = REmpty"
| "seqOf [r] = r"
| "seqOf (r # rs) = RCat r (seqOf rs)"

fun altOf :: "regex list \<Rightarrow> regex" where
  "altOf [] = REmpty"
| "altOf [r] = r"
| "altOf (r # rs) = RAlt r (altOf rs)"

definition closeFrame :: "regex list \<Rightarrow> regex list \<Rightarrow> regex" where
  "closeFrame alts terms = altOf (rev (seqOf (rev terms) # alts))"

fun parseTokens ::
  "token list \<Rightarrow> frame \<Rightarrow> frame list \<Rightarrow> nat \<Rightarrow> (string \<times> nat) list \<Rightarrow> compiled option" where
  "parseTokens [] (g, alts, terms, q) stack n names =
     (if stack = [] then Some (closeFrame alts terms, n, names) else None)"
| "parseTokens (TAtom r # ts) (g, alts, terms, q) stack n names =
     parseTokens ts (g, alts, r # terms, True) stack n names"
| "parseTokens (TAssert r # ts) (g, alts, terms, q) stack n names =
     parseTokens ts (g, alts, r # terms, False) stack n names"
| "parseTokens (TOpen # ts) cur stack n names =
     parseTokens ts (Some (Suc n), [], [], False) (cur # stack) (Suc n) names"
| "parseTokens (TOpenNamed nm # ts) cur stack n names =
     (if nm \<in> set (map fst names) then None
      else parseTokens ts (Some (Suc n), [], [], False) (cur # stack) (Suc n) (names @ [(nm, Suc n)]))"
| "parseTokens (TOpenNC # ts) cur stack n names =
     parseTokens ts (None, [], [], False) (cur # stack) n names"
| "parseTokens (TClose # ts) (g, alts, terms, q) stack n names =
     (case stack of
        [] \<Rightarrow> None
      | (g', alts', terms', q') # stack' \<Rightarrow>
          parseTokens ts
            (g', alts', (case g of Some k \<Rightarrow> RGroup k (closeFrame alts terms) | None \<Rightarrow> closeFrame alts terms) # terms', True)
            stack' n names)"
| "parseTokens (TBar # ts) (g, alts, terms, q) stack n names =
     parseTokens ts (g, seqOf (rev terms) # alts, [], False) stack n names"
| "parseTokens (TQuant mn mx greedy # ts) (g, alts, terms, q) stack n names =
     (case terms of
        [] \<Rightarrow> None
      | r # terms' \<Rightarrow>
          if q then parseTokens ts (g, alts, RRep mn mx greedy r # terms', False) stack n names else None)"

definition js_compile :: "string \<Rightarrow> compiled option" where
  "js_compile p =
     (case tokenize p of None \<Rightarrow> None | Some ts \<Rightarrow> parseTokens ts (None, [], [], False) [] 0 [])"

text \<open>
  \<open>RegExp.prototype.exec\<close> without the global or sticky flag: the match attempts start at
  index 0, 1, ... up to the length of the input, and the first success is the result.
\<close>

fun firstSome :: "('a \<Rightarrow> 'b option) \<Rightarrow> 'a list \<Rightarrow> 'b option" where
  "firstSome f [] = None"
| "firstSome f (x # xs) = (case f x of Some y \<Rightarrow> Some y | None \<Rightarrow> firstSome f xs)"

definition groupsObject :: "(string \<times> nat) list \<Rightarrow> string option list \<Rightarrow> (string \<times> string option) list option" where
  "groupsObject names caps =
     (if names = [] then None else Some (map (\<lambda>(nm, k). (nm, caps ! (k - 1))) names))"

fun js_exec :: "compiled \<Rightarrow> string \<Rightarrow> rmatch option" where
  "js_exec (r, n, names) inp =
     firstSome
       (\<lambda>i. case matchR r inp (i, replicate n None) Some of
               None \<Rightarrow> None
             | Some y \<Rightarrow> Some \<lparr>m_index = i, m_text = take (fst y - i) (drop i inp),
                               m_captures = snd y, m_groups = groupsObject names (snd y)\<rparr>)
       [0..<Suc (length inp)]"

definition jsRegex :: "compiled regexEngine" where
  "jsRegex = \<lparr>compile = js_compile, exec = js_exec\<rparr>"

text \<open>The expression the example pattern denotes: one group, the last hyphen-free, dot-free run before a dot.\<close>

definition exampleRegex :: compiled where
  "exampleRegex =
     (RCat RBol (RCat (RRep 0 None True RAny) (RCat (RChar CHR ''-'')
        (RCat (RGroup 1 (RRep 1 None True (RClass True [CChar CHR ''-'', CChar CHR ''.''])))
          (RCat (RChar CHR ''.'') (RCat (RRep 0 None True RAny) REol))))), 1, [])"

text \<open>A find pattern with a named group, and the expression it denotes.\<close>

definition namedPattern :: string where
  "namedPattern = ''(?<c>red)''"

definition namedRegex :: compiled where
  "namedRegex =
     (RGroup 1 (RCat (RChar CHR ''r'') (RCat (RChar CHR ''e'') (RChar CHR ''d''))), 1, [(''c'', 1)])"

text \<open>
  The two passes in the opposite order, for comparison: the capture-group substitution
  first, the \<open>TIMESTAMP\<close> replacement on its result.
\<close>

definition groupsBeforeTimestamp :: "rmatch \<Rightarrow> nat \<Rightarrow> string \<Rightarrow> string \<Rightarrow> string" where
  "groupsBeforeTimestamp m now filename replacePattern =
     withExtension (replaceTimestamp (showNat now) (js_replace (Some m) filename replacePattern))"

text \<open>The decimal value of a string of digits.\<close>

definition decimalValue :: "string \<Rightarrow> nat" where
  "decimalValue ds = foldl (\<lambda>a c. 10 * a + digitVal c) 0 ds"

section \<open>Orchestrator (convex/processing.ts)\<close>

subsection \<open>The world outside the database\<close>

text \<open>What \<open>fetch\<close> resolves to; \<open>resp_arrayBuffer\<close> is the body already in base64, or the rejection of reading it.\<close>

record fetchResponse =
  resp_ok :: bool
  resp_status :: nat
  resp_statusText :: string
  resp_contentType :: "string option"
  resp_arrayBuffer :: "js_error + string"

text \<open>
  The response of \<open>ai.models.generateContent\<close>. A part has no \<open>inlineData\<close> (\<open>None\<close>),
  \<open>inlineData\<close> without \<open>data\<close> (\<open>Some None\<close>) or \<open>inlineData.data\<close> (\<open>Some (Some d)\<close>);
  \<open>contentParts\<close> is \<open>candidate.content?.parts\<close>.
\<close>

datatype responsePart = ResponsePart (inlineData: "string option option")

record candidate =
  finishReason :: "string option"
  contentParts :: "responsePart list option"

record usageMetadata =
  promptTokenCount :: "int option"
  candidatesTokenCount :: "int option"
  totalTokenCount :: "int option"

record generateResponse =
  usage :: "usageMetadata option"
  candidates :: "candidate list option"

text \<open>The request: the model name and the parts (prompt, source image, optional logo).\<close>

record generateRequest =
  req_model :: string
  req_prompt :: string
  req_image :: "string \<times> string"
  req_logo :: "string option"

text \<open>
  Everything \<open>processJob\<close> reads from outside the database: the runtime's regular
  expressions and URL parser, the network, the environment variable, the generative
  service, the file storage, and the clock readings of the file name, of \<open>setCompleted\<close>
  and of \<open>setFailed\<close>. A call that can throw returns \<open>Inl\<close> of the error.
\<close>

record 'r env =
  regexEngine :: "'r regexEngine"
  urlPathname :: "string \<Rightarrow> string option"
  fetch :: "string \<Rightarrow> js_error + fetchResponse"
  GEMINI_API_KEY :: "string option"
  generateContent :: "generateRequest \<Rightarrow> js_error + generateResponse"
  storageStore :: "string \<Rightarrow> js_error + string"
  storageGetUrl :: "string \<Rightarrow> js_error + string option"
  nowFilename :: nat
  nowCompleted :: nat
  nowFailed :: nat

subsection \<open>buildPrompt and fetchImageAsBase64\<close>

definition nl :: string where
  "nl = [CHR 0x0A]"

text \<open>\<open>config.addOwnLogo && config.ownLogoData\<close>: the logo, when the flag is set and the data is a non-empty string.\<close>

definition logoOf :: "ProcessingConfig \<Rightarrow> string option" where
  "logoOf cfg =
     (if addOwnLogo cfg
      then (case ownLogoData cfg of Some (Some l) \<Rightarrow> if l \<noteq> [] then Some l else None | _ \<Rightarrow> None)
      else None)"

definition brandingInstructions :: "ProcessingConfig \<Rightarrow> string" where
  "brandingInstructions cfg =
     (if removeBranding cfg
      then nl @ ''    - REMOVE BRANDING: Identify and scrub any existing logos, text, or watermarks from the original image.''
      else [])
     @ (if addBrandingColors cfg
        then nl @ ''    - BRANDING COLORS: Subtly adjust the color palette using '' @ brandingColor cfg
             @ '' as a key accent color.''
        else [])
     @ (if logoOf cfg \<noteq> None
        then nl @ ''    - INSERT LOGO: Composite the provided logo into the scene realistically.''
        else [])"

definition buildPrompt :: "ProcessingConfig \<Rightarrow> string" where
  "buildPrompt cfg =
     nl @ ''    Generate a new version of this image located in '' @ targetCountry cfg
        @ '', keeping the same context but adapting the visual elements.''
     @ nl
     @ nl @ ''    CORE INSTRUCTIONS:''
     @ nl @ ''    1. CONTEXT: Maintain the original scenario but transplanted to '' @ targetCountry cfg @ ''.''
     @ nl @ ''    2. FLEXIBILITY: Change people, geometry, environment, and atmosphere to be authentic.''
     @ nl @ ''       - PEOPLE: Update ethnicity, fashion, and appearance.''
     @ nl @ ''       - GEOMETRY & ENVIRONMENT: Redesign architecture and background.''
     @ nl @ ''       - ATMOSPHERE: Adapt lighting and mood.''
     @ nl @ ''    ''
     @ nl @ ''    BRANDING ADJUSTMENTS:'' @ brandingInstructions cfg
     @ nl
     @ nl @ ''    The output should be a distinct new variation that tells the same story in a different cultural setting.''
     @ nl @ ''    ''
     @ nl @ ''    Additional Context: '' @ additionalContext cfg
     @ nl @ ''  ''"

definition fetchImageAsBase64 :: "'r env \<Rightarrow> string \<Rightarrow> js_error + (string \<times> string)" where
  "fetchImageAsBase64 e url =
     (case fetch e url of
        Inl err \<Rightarrow> Inl err
      | Inr response \<Rightarrow>
          if \<not> resp_ok response
          then Inl (JsError (''Failed to fetch image: '' @ showNat (resp_status response) @ '' ''
                             @ resp_statusText response))
          else
            (let contentType = (case resp_contentType response of
                                  None \<Rightarrow> ''image/jpeg''
                                | Some ct \<Rightarrow> if ct = [] then ''image/jpeg'' else ct)
             in case resp_arrayBuffer response of
                  Inl err \<Rightarrow> Inl err
                | Inr base64 \<Rightarrow> Inr (base64, contentType)))"

subsection \<open>processJob\<close>

text \<open>\<open>x || 0\<close> on an optional count.\<close>

definition orZero :: "int option \<Rightarrow> int" where
  "orZero x = (case x of None \<Rightarrow> 0 | Some n \<Rightarrow> n)"

text \<open>The loop over the response parts: the first \<open>inlineData.data\<close> that is a non-empty string.\<close>

fun firstInlineData :: "responsePart list \<Rightarrow> string option" where
  "firstInlineData [] = None"
| "firstInlineData (p # ps) =
     (case inlineData p of
        Some (Some d) \<Rightarrow> if d \<noteq> [] then Some d else firstInlineData ps
      | _ \<Rightarrow> firstInlineData ps)"

text \<open>What the \<open>try\<close> block has computed when it reaches \<open>setCompleted\<close>.\<close>

record completion =
  c_fileId :: string
  c_fileName :: string
  c_fileUrl :: string
  c_promptTokens :: int
  c_candidateTokens :: int
  c_totalTokens :: int

text \<open>
  The \<open>try\<close> block of \<open>processJob\<close> from the fetch of the source image to the storage
  URL, in the order of the source; every \<open>throw\<close> and every call that can throw is an
  \<open>Inl\<close>.
\<close>

definition processSteps :: "'r env \<Rightarrow> job \<Rightarrow> js_error + completion" where
  "processSteps e j =
     (case fetchImageAsBase64 e (sourceUrl j) of
        Inl err \<Rightarrow> Inl err
      | Inr (imageBase64, mimeType) \<Rightarrow>
     (case GEMINI_API_KEY e of
        None \<Rightarrow> Inl (JsError ''GEMINI_API_KEY environment variable not set'')
      | Some apiKey \<Rightarrow>
     if apiKey = [] then Inl (JsError ''GEMINI_API_KEY environment variable not set'')
     else
     (case generateContent e
             \<lparr>req_model = (case modelVersion (config j) of
                             None \<Rightarrow> ''gemini-2.0-flash-exp''
                           | Some v \<Rightarrow> if v = [] then ''gemini-2.0-flash-exp'' else v),
              req_prompt = buildPrompt (config j),
              req_image = (mimeType, imageBase64),
              req_logo = logoOf (config j)\<rparr> of
        Inl err \<Rightarrow> Inl err
      | Inr response \<Rightarrow>
     (case (case candidates response of None \<Rightarrow> None | Some [] \<Rightarrow> None | Some (c # _) \<Rightarrow> Some c) of
        None \<Rightarrow> Inl (JsError ''No candidates returned from Gemini'')
      | Some cand \<Rightarrow>
     (case (case finishReason cand of
              None \<Rightarrow> None
            | Some fr \<Rightarrow> if fr \<noteq> [] \<and> fr \<noteq> ''STOP'' then Some fr else None) of
        Some fr \<Rightarrow> Inl (JsError (''Generation stopped: '' @ fr))
      | None \<Rightarrow>
     (case contentParts cand of
        None \<Rightarrow> Inl (JsError ''No content parts in response'')
      | Some responseParts \<Rightarrow>
     if responseParts = [] then Inl (JsError ''No content parts in response'')
     else
     (case firstInlineData responseParts of
        None \<Rightarrow> Inl (JsError ''No image data in response'')
      | Some generatedBase64 \<Rightarrow>
     (let originalFilename = getFilenameFromUrl (urlPathname e) (sourceUrl j);
          generatedFileName =
            generateOutputFilename (regexEngine e) (nowFilename e) originalFilename
              (filenameFindPattern (config j)) (filenameReplacePattern (config j))
      in
     (case storageStore e generatedBase64 of
        Inl err \<Rightarrow> Inl err
      | Inr fileId \<Rightarrow>
     (case storageGetUrl e fileId of
        Inl err \<Rightarrow> Inl err
      | Inr None \<Rightarrow> Inl (JsError ''Failed to get storage URL'')
      | Inr (Some fileUrl) \<Rightarrow>
     if fileUrl = [] then Inl (JsError ''Failed to get storage URL'')
     else
       Inr \<lparr>c_fileId = fileId, c_fileName = generatedFileName, c_fileUrl = fileUrl,
            c_promptTokens = orZero (case usage response of None \<Rightarrow> None | Some u \<Rightarrow> promptTokenCount u),
            c_candidateTokens = orZero (case usage response of None \<Rightarrow> None | Some u \<Rightarrow> candidatesTokenCount u),
            c_totalTokens = orZero (case usage response of None \<Rightarrow> None | Some u \<Rightarrow> totalTokenCount u)\<rparr>))))))))))"

text \<open>The whole \<open>try\<close> block: the steps, then the \<open>setCompleted\<close> mutation.\<close>

definition tryBlock :: "'r env \<Rightarrow> db \<Rightarrow> nat \<Rightarrow> job \<Rightarrow> (js_error + unit) \<times> db" where
  "tryBlock e d jobId j =
     (case processSteps e j of
        Inl err \<Rightarrow> (Inl err, d)
      | Inr c \<Rightarrow>
          jobs_setCompleted d (nowCompleted e) jobId (c_fileId c) (c_fileName c) (c_fileUrl c)
            (Some (c_promptTokens c)) (Some (c_candidateTokens c)) (Some (c_totalTokens c)))"

text \<open>
  \<open>error.message || "Unknown error"\<close> in the \<open>catch\<close> clause, on whatever was thrown:
  reading \<open>message\<close> of \<open>undefined\<close> or \<open>null\<close> throws a TypeError; a string message
  that is not empty is the result; an empty, absent or otherwise falsy message gives
  \<open>Unknown error\<close>; a truthy message that is not a string is itself the result.
\<close>

datatype messageValue = MessageString string | MessageOther

fun errorMessage :: "js_error \<Rightarrow> js_error + messageValue" where
  "errorMessage (JsError m) = Inr (MessageString (if m \<noteq> [] then m else ''Unknown error''))"
| "errorMessage ThrownNoMessage = Inr (MessageString ''Unknown error'')"
| "errorMessage ThrownOtherMessage = Inr MessageOther"
| "errorMessage ThrownNullish = Inl (JsError ''TypeError: Cannot read properties of undefined'')"

text \<open>
  The \<open>catch\<close> clause: the message is evaluated, then passed to \<open>setFailed\<close>, whose
  argument validator \<open>v.string()\<close> rejects a message that is not a string. An exception
  raised here leaves \<open>processJob\<close>.
\<close>

definition catchClause :: "'r env \<Rightarrow> db \<Rightarrow> nat \<Rightarrow> js_error \<Rightarrow> (js_error + unit) \<times> db" where
  "catchClause e d jobId err =
     (case errorMessage err of
        Inl thrown \<Rightarrow> (Inl thrown, d)
      | Inr MessageOther \<Rightarrow> (Inl (JsError ''ArgumentValidationError: Value does not match validator''), d)
      | Inr (MessageString m) \<Rightarrow> jobs_setFailed d (nowFailed e) jobId m)"

text \<open>
  \<open>processJob\<close>. The result is \<open>Inr ()\<close> when the action returns \<open>null\<close> and \<open>Inl\<close> of the
  error when it throws: for a missing job, or when \<open>setProcessing\<close> or the \<open>catch\<close>
  clause throws.
\<close>

definition processJob :: "'r env \<Rightarrow> db \<Rightarrow> nat \<Rightarrow> (js_error + unit) \<times> db" where
  "processJob e d jobId =
     (case jobs_getById d jobId of
        None \<Rightarrow> (Inl (JsError ''Job not found''), d)
      | Some j \<Rightarrow>
          (case jobs_setProcessing d jobId of
             (Inl err, d1) \<Rightarrow> (Inl err, d1)
           | (Inr _, d1) \<Rightarrow>
               (case tryBlock e d1 jobId j of
                  (Inr _, d2) \<Rightarrow> (Inr (), d2)
                | (Inl err, d2) \<Rightarrow> catchClause e d2 jobId err)))"


text \<open>\<open>processBatch\<close>: the jobs of the batch in creation order, each pending one processed in turn.\<close>

fun processAll :: "'r env \<Rightarrow> db \<Rightarrow> job list \<Rightarrow> (js_error + unit) \<times> db" where
  "processAll e d [] = (Inr (), d)"
| "processAll e d (j # js) =
     (if status j = Pending
      then (case processJob e d (jid j) of
              (Inl err, d') \<Rightarrow> (Inl err, d')
            | (Inr _, d') \<Rightarrow> processAll e d' js)
      else processAll e d js)"

definition processBatch :: "'r env \<Rightarrow> db \<Rightarrow> string \<Rightarrow> (js_error + unit) \<times> db" where
  "processBatch e d b = processAll e d (by_batchId d b)"





section \<open>Theorems: batch summary\<close>

lemma ulp_small: "n < 9007199254740992 \<Longrightarrow> ulp n = 1"
  by (simp add: ulp.simps [of n])

lemma ulp_numeral:
  "ulp (numeral k) = (if (numeral k :: nat) < 9007199254740992 then 1 else 2 * ulp (numeral k div 2))"
  by (rule ulp.simps)

lemma roundNearestEven_exact: "n \<le> 9007199254740992 \<Longrightarrow> roundNearestEven n = n"
proof (cases "n < 9007199254740992")
  case True
  then show ?thesis by (simp add: roundNearestEven_def ulp_small)
next
  case False
  assume "n \<le> 9007199254740992"
  with False have n: "n = 9007199254740992" by simp
  show ?thesis unfolding n by (simp add: roundNearestEven_def ulp_numeral)
qed

lemma float64_exact: "\<bar>i\<bar> \<le> exactBound \<Longrightarrow> float64 i = i"
  by (auto simp: float64_def exactBound_def roundNearestEven_exact)

lemma foldl_tokens_exact:
  "\<bar>a\<bar> + sum_list (map (\<lambda>j. \<bar>tokensOrZero j\<bar>) js) \<le> exactBound \<Longrightarrow>
   foldl (\<lambda>sum j. js_add sum (tokensOrZero j)) a js = a + sum_list (map tokensOrZero js)"
proof (induction js arbitrary: a)
  case Nil
  then show ?case by simp
next
  case (Cons j js)
  have "\<bar>a + tokensOrZero j\<bar> \<le> \<bar>a\<bar> + \<bar>tokensOrZero j\<bar>" by (rule abs_triangle_ineq)
  moreover have "0 \<le> sum_list (map (\<lambda>j. \<bar>tokensOrZero j\<bar>) js)"
    by (rule sum_list_nonneg) auto
  ultimately have b: "\<bar>a + tokensOrZero j\<bar> + sum_list (map (\<lambda>j. \<bar>tokensOrZero j\<bar>) js) \<le> exactBound"
    and s: "\<bar>a + tokensOrZero j\<bar> \<le> exactBound"
    using Cons.prems by simp_all
  have "js_add a (tokensOrZero j) = a + tokensOrZero j"
    using s by (simp add: js_add_def float64_exact)
  with Cons.IH [OF b] show ?case by simp
qed

lemma sum_tokens_completed_only:
  "\<forall>j\<in>set js. status j \<noteq> Completed \<longrightarrow> totalTokens j = None \<Longrightarrow>
   sum_list (map tokensOrZero (filter (\<lambda>j. status j = Completed) js)) = sum_list (map tokensOrZero js)"
  by (induction js) (auto simp: tokensOrZero_def)

lemma dbCompletedThenFailed_jobs:
  "jobs dbCompletedThenFailed =
     [\<lparr>jid = 0, batchId = Some ''b1'', sourceUrl = ''http://h/a-red.jpg'', presetName = None,
       config = cfg0, status = Failed, error = Some ''boom'', generatedFileId = None,
       generatedFileName = Some ''red.png'', generatedUrl = Some ''http://s/1'',
       generatedUrlWithExtension = None, promptTokens = Some 2, candidateTokens = Some 3,
       totalTokens = Some 5, createdAt = 1000, completedAt = Some 3000\<rparr>]"
  by (simp add: dbCompletedThenFailed_def createJob_def setJobCompleted_def setJobFailed_def
      db_insert_job_def db_patch_job_def db_get_job_def emptyDb_def patchJobCompleted_def
      patchFailed_def)

lemma js_add_small: "js_add 0 5 = 5"
  by (simp add: js_add_def float64_exact exactBound_def)

text \<open>
  Beyond \<open>2^53\<close> the sum of the code is the rounded one: for the counts \<open>2^53\<close>, 1 and 1
  the summary reports \<open>2^53\<close>, two less than the exact sum.
\<close>

lemma js_add_rounds:
  "js_add (js_add (js_add 0 9007199254740992) 1) 1 = 9007199254740992"
  by (simp add: js_add_def float64_def roundNearestEven_def ulp_numeral)

lemma dbLargeCounts_batch:
  "map tokensOrZero (by_batchId dbLargeCounts ''big'') = [9007199254740992, 1, 1]"
  by (simp add: dbLargeCounts_def createJob_def setJobCompleted_def by_batchId_def
      db_insert_job_def db_patch_job_def db_get_job_def emptyDb_def patchJobCompleted_def
      tokensOrZero_def)

lemma getBatchSummary_rounds:
  "s_totalTokens (getBatchSummary dbLargeCounts ''big'') = 9007199254740992 \<and>
   sum_list (map tokensOrZero (by_batchId dbLargeCounts ''big'')) = 9007199254740994"
proof -
  obtain j1 j2 j3 where js: "by_batchId dbLargeCounts ''big'' = [j1, j2, j3]"
    and t: "tokensOrZero j1 = 9007199254740992" "tokensOrZero j2 = 1" "tokensOrZero j3 = 1"
    using dbLargeCounts_batch by auto
  show ?thesis
    by (simp add: getBatchSummary_def Let_def js t js_add_rounds)
qed

text \<open>
  C1 (as stated, refuted). The claim says a job that is not completed contributes 0 to
  \<open>totalTokens\<close> whatever its own \<open>totalTokens\<close> field holds. After createJob,
  setJobCompleted (5 tokens) and setJobFailed on the same job, the batch has no completed
  job, so the sum over completed jobs is 0, while getBatchSummary reports 5.
\<close>

theorem getBatchSummary_totalTokens_counterexample:
  "s_totalTokens (getBatchSummary dbCompletedThenFailed ''b1'') = 5 \<and>
   completedTokenSum dbCompletedThenFailed ''b1'' = 0 \<and>
   s_completed (getBatchSummary dbCompletedThenFailed ''b1'') = 0"
  by (simp add: getBatchSummary_def completedTokenSum_def by_batchId_def
      dbCompletedThenFailed_jobs tokensOrZero_def js_add_small)

text \<open>
  C1 (amended). For every database and batch id whose jobs hold integer token counts with
  absolute values summing to at most \<open>2^53\<close> (so that every partial sum is a safe
  integer and the floating-point additions are exact): \<open>totalTokens\<close> of the summary is
  the sum of \<open>totalTokens ?? 0\<close> over all jobs of that batch and of no other, whatever
  their status; a job contributes 0 when its \<open>totalTokens\<close> field is absent. When no job
  of the batch other than the completed ones carries a \<open>totalTokens\<close> value, this is the
  sum over the completed jobs.
\<close>

theorem getBatchSummary_totalTokens:
  assumes "sum_list (map (\<lambda>j. \<bar>tokensOrZero j\<bar>) (by_batchId d b)) \<le> exactBound"
  shows "s_totalTokens (getBatchSummary d b) = sum_list (map tokensOrZero (by_batchId d b)) \<and>
   ((\<forall>j\<in>set (by_batchId d b). status j \<noteq> Completed \<longrightarrow> totalTokens j = None) \<longrightarrow>
      s_totalTokens (getBatchSummary d b) = completedTokenSum d b)"
proof -
  have "foldl (\<lambda>sum j. js_add sum (tokensOrZero j)) 0 (by_batchId d b)
          = 0 + sum_list (map tokensOrZero (by_batchId d b))"
    using assms by (intro foldl_tokens_exact) simp
  then show ?thesis
    by (simp add: getBatchSummary_def Let_def completedTokenSum_def sum_tokens_completed_only)
qed

lemma dbTwoBatches_b1:
  "map (\<lambda>j. (jid j, status j, totalTokens j)) (by_batchId dbTwoBatches ''b1'') =
     [(0, Completed, Some 5), (1, Pending, None)]"
  by (simp add: dbTwoBatches_def createJob_def setJobCompleted_def by_batchId_def
      db_insert_job_def db_patch_job_def db_get_job_def emptyDb_def patchJobCompleted_def)

lemma dbTwoBatches_b2:
  "map (\<lambda>j. (jid j, status j, totalTokens j)) (by_batchId dbTwoBatches ''b2'') =
     [(2, Completed, Some 7)]"
  by (simp add: dbTwoBatches_def createJob_def setJobCompleted_def by_batchId_def
      db_insert_job_def db_patch_job_def db_get_job_def emptyDb_def patchJobCompleted_def)

theorem getBatchSummary_totalTokens_witness:
  "map (\<lambda>j. (jid j, status j, totalTokens j)) (by_batchId dbTwoBatches ''b1'')
     = [(0, Completed, Some 5), (1, Pending, None)] \<and>
   map (\<lambda>j. (jid j, status j, totalTokens j)) (by_batchId dbTwoBatches ''b2'')
     = [(2, Completed, Some 7)] \<and>
   length (jobs dbTwoBatches) = 3 \<and>
   s_totalTokens (getBatchSummary dbTwoBatches ''b1'') = 5 \<and>
   completedTokenSum dbTwoBatches ''b1'' = 5 \<and>
   s_totalTokens (getBatchSummary dbTwoBatches ''b2'') = 7 \<and>
   completedTokenSum dbTwoBatches ''b2'' = 7"
proof -
  obtain j1 j2 where js1: "by_batchId dbTwoBatches ''b1'' = [j1, j2]"
    and j1: "status j1 = Completed" "totalTokens j1 = Some 5"
    and j2: "status j2 = Pending" "totalTokens j2 = None"
    using dbTwoBatches_b1 by auto
  obtain j3 where js2: "by_batchId dbTwoBatches ''b2'' = [j3]"
    and j3: "status j3 = Completed" "totalTokens j3 = Some 7"
    using dbTwoBatches_b2 by auto
  have n: "length (jobs dbTwoBatches) = 3"
    by (simp add: dbTwoBatches_def createJob_def setJobCompleted_def
        db_insert_job_def db_patch_job_def db_get_job_def emptyDb_def)
  have b1: "sum_list (map (\<lambda>j. \<bar>tokensOrZero j\<bar>) (by_batchId dbTwoBatches ''b1'')) \<le> exactBound"
    by (simp add: js1 tokensOrZero_def j1 j2 exactBound_def)
  have b2: "sum_list (map (\<lambda>j. \<bar>tokensOrZero j\<bar>) (by_batchId dbTwoBatches ''b2'')) \<le> exactBound"
    by (simp add: js2 tokensOrZero_def j3 exactBound_def)
  have h1: "\<forall>j\<in>set (by_batchId dbTwoBatches ''b1''). status j \<noteq> Completed \<longrightarrow> totalTokens j = None"
    by (simp add: js1 j1 j2)
  have h2: "\<forall>j\<in>set (by_batchId dbTwoBatches ''b2''). status j \<noteq> Completed \<longrightarrow> totalTokens j = None"
    by (simp add: js2 j3)
  have s1: "sum_list (map tokensOrZero (by_batchId dbTwoBatches ''b1'')) = 5"
    by (simp add: js1 tokensOrZero_def j1 j2)
  have s2: "sum_list (map tokensOrZero (by_batchId dbTwoBatches ''b2'')) = 7"
    by (simp add: js2 tokensOrZero_def j3)
  from getBatchSummary_totalTokens [OF b1] getBatchSummary_totalTokens [OF b2]
    h1 h2 s1 s2 n dbTwoBatches_b1 dbTwoBatches_b2
  show ?thesis by simp
qed

section \<open>Theorems: job store\<close>

lemma find_map_patch:
  "(\<And>j. jid (f j) = jid j) \<Longrightarrow>
   find (\<lambda>j. jid j = i) (map (\<lambda>j. if jid j = i then f j else j) xs) =
     map_option f (find (\<lambda>j. jid j = i) xs)"
  by (induction xs) auto

lemma db_patch_job_get:
  "(\<And>j. jid (f j) = jid j) \<Longrightarrow>
   db_get_job (snd (db_patch_job d i f)) i = map_option f (db_get_job d i)"
  by (auto simp: db_patch_job_def db_get_job_def find_map_patch split: option.splits)

lemma db_patch_job_jobs:
  "jobs (snd (db_patch_job d i f)) = jobs d \<or>
   jobs (snd (db_patch_job d i f)) = map (\<lambda>j. if jid j = i then f j else j) (jobs d)"
  by (auto simp: db_patch_job_def split: option.splits)


lemma applyOp_patch: "applyOp d i op = db_patch_job d i (opPatch op)"
  by (cases op) (simp_all add: setJobProcessing_def setJobCompleted_def jobs_setCompleted_def
      setJobCompletedWithFile_def setJobFailed_def)

lemmas patch_defs = patchProcessing_def patchJobCompleted_def patchCompleted_def
  patchCompletedWithFile_def patchFailed_def

lemma opPatch_jid: "jid (opPatch op j) = jid j"
  by (cases op) (simp_all add: patch_defs)

lemma opPatch_status: "status (opPatch op j) = opTarget op"
  by (cases op) (simp_all add: patch_defs)

lemma opPatch_inv: "statusImpliesFields j \<Longrightarrow> statusImpliesFields (opPatch op j)"
  by (cases op) (auto simp: statusImpliesFields_def patch_defs)

lemma applyOp_get:
  "db_get_job d i = Some j \<Longrightarrow> db_get_job (snd (applyOp d i op)) i = Some (opPatch op j)"
  by (simp add: applyOp_patch db_patch_job_get opPatch_jid)

lemma runCall_inv:
  assumes "\<forall>j\<in>set (jobs d). statusImpliesFields j"
  shows "\<forall>j\<in>set (jobs (runCall d c)). statusImpliesFields j"
proof (cases c)
  case (CallCreateJob now src nm cfg pn b)
  then show ?thesis using assms
    by (auto simp: createJob_def db_insert_job_def statusImpliesFields_def)
next
  case (CallCreate now src cfg pn b)
  then show ?thesis using assms
    by (auto simp: jobs_create_def db_insert_job_def statusImpliesFields_def)
next
  case (CallOp i op)
  then show ?thesis using assms db_patch_job_jobs [of d i "opPatch op"]
    by (auto simp: applyOp_patch opPatch_inv)
qed

lemma runCalls_inv: "\<forall>j\<in>set (jobs (runCalls emptyDb cs)). statusImpliesFields j"
proof (induction cs rule: rev_induct)
  case Nil
  then show ?case by (simp add: runCalls_def emptyDb_def)
next
  case (snoc c cs)
  then show ?case using runCall_inv [of "runCalls emptyDb cs" c]
    by (simp add: runCalls_def)
qed

lemmas store_defs = runCalls_def jobs_create_def createJob_def setJobFailed_def
  setJobProcessing_def setJobCompleted_def jobs_setCompleted_def db_insert_job_def
  db_patch_job_def db_get_job_def emptyDb_def

text \<open>
  C2 (as stated, refuted). The claim says every reachable job record has \<open>error\<close> set
  exactly when it is failed, the artifact reference and file name set exactly when it is
  completed, and \<open>completedAt\<close> set exactly when it is completed or failed. A job that was
  marked failed and then marked processing keeps \<open>error\<close> and \<open>completedAt\<close> while its
  status is processing; and a job fresh from the public createJob is pending with
  \<open>generatedFileName\<close> already set.
\<close>

theorem specInvariant_counterexample:
  "\<not> list_all specInvariant (jobs (runCalls emptyDb callsFailedThenProcessing)) \<and>
   \<not> list_all specInvariant
        (jobs (runCalls emptyDb [CallCreateJob 1000 ''http://h/a-red.jpg'' ''a-red.jpg'' cfg0 None None]))"
  by (simp add: callsFailedThenProcessing_def store_defs patch_defs specInvariant_def)

text \<open>
  C2 (amended). For every job record of a database reached from the empty one by any
  sequence of job-store calls (create, mark processing, mark completed, mark failed, on
  any job ids): if the status is failed then \<open>error\<close> is set; if the status is completed
  then the output file name is set and so is the artifact reference or the public URL; if
  the status is completed or failed then \<open>completedAt\<close> is set.
\<close>

theorem job_fields_follow_status:
  "j \<in> set (jobs (runCalls emptyDb cs)) \<Longrightarrow> statusImpliesFields j"
  using runCalls_inv by blast

theorem job_fields_follow_status_witness:
  "jobs (runCalls emptyDb callsFailedThenProcessing) \<noteq> [] \<and>
   list_all statusImpliesFields (jobs (runCalls emptyDb callsFailedThenProcessing)) \<and>
   map status (jobs (runCalls emptyDb
      [CallCreate 1000 ''u'' cfg0 None None, CallOp 0 OpProcessing, CallOp 0 (OpFailed 5 ''boom'')])) = [Failed] \<and>
   list_all statusImpliesFields (jobs (runCalls emptyDb
      [CallCreate 1000 ''u'' cfg0 None None, CallOp 0 OpProcessing, CallOp 0 (OpFailed 5 ''boom'')]))"
proof -
  have 1: "jobs (runCalls emptyDb callsFailedThenProcessing) \<noteq> []"
    by (simp add: callsFailedThenProcessing_def store_defs)
  have 2: "map status (jobs (runCalls emptyDb
      [CallCreate 1000 ''u'' cfg0 None None, CallOp 0 OpProcessing, CallOp 0 (OpFailed 5 ''boom'')])) = [Failed]"
    by (simp add: store_defs patch_defs)
  show ?thesis
    using 1 2 job_fields_follow_status [of _ callsFailedThenProcessing]
      job_fields_follow_status [of _ "[CallCreate 1000 ''u'' cfg0 None None, CallOp 0 OpProcessing,
        CallOp 0 (OpFailed 5 ''boom'')]"]
    by (simp add: list_all_iff)
qed

text \<open>
  C3 (as stated, refuted). The claim says that any sequence of the status operations,
  in any order, is observed as a subsequence of pending, processing, completed or of
  pending, processing, failed. Marking a pending job completed and then processing is
  observed as pending, completed, processing: the first step skips a state, the second
  leaves a terminal state, and the sequence is a subsequence of neither chain.
\<close>

theorem observed_lifecycle_counterexample:
  "observed dbOnePending 0 [OpJobCompleted 2000 ''http://s/1'' ''red.png'' None None None, OpProcessing]
     = [Some Pending, Some Completed, Some Processing] \<and>
   \<not> subseqOfLifecycle [Pending, Completed, Processing] \<and>
   \<not> followsLifecycle [Pending, Completed, Processing]"
  by (simp add: dbOnePending_def store_defs patch_defs statusOf_def subseqOfLifecycle_def
      followsLifecycle_def)

text \<open>
  C3 (amended). For every existing job and every sequence of status operations, each
  operation writes its own status whatever the current one, so the observed sequence is
  the job's initial status followed by the statuses of the operations in call order. For
  a pending job that sequence follows the state machine exactly when the operations are
  a prefix of processing, completed or of processing, failed.
\<close>

theorem observed_statuses:
  "db_get_job d i = Some j \<Longrightarrow>
   observed d i ops = map Some (status j # map opTarget ops) \<and>
   (status j = Pending \<longrightarrow>
      (followsLifecycle (status j # map opTarget ops) \<longleftrightarrow>
         prefix (map opTarget ops) [Processing, Completed] \<or>
         prefix (map opTarget ops) [Processing, Failed]))"
proof (induction ops arbitrary: d j)
  case Nil
  then show ?case by (simp add: statusOf_def followsLifecycle_def)
next
  case (Cons op ops)
  from Cons.prems have "db_get_job (snd (applyOp d i op)) i = Some (opPatch op j)"
    by (rule applyOp_get)
  from Cons.IH [OF this] Cons.prems show ?case
    by (simp add: statusOf_def opPatch_status followsLifecycle_def)
qed

theorem observed_statuses_witness:
  "db_get_job dbOnePending 0 \<noteq> None \<and>
   observed dbOnePending 0 [OpProcessing, OpFailed 3000 ''boom'']
     = [Some Pending, Some Processing, Some Failed] \<and>
   followsLifecycle [Pending, Processing, Failed]"
proof -
  obtain j where j: "db_get_job dbOnePending 0 = Some j" and s: "status j = Pending"
    by (simp add: dbOnePending_def store_defs)
  from observed_statuses [OF j, of "[OpProcessing, OpFailed 3000 ''boom'']"] j s
  show ?thesis by simp
qed

section \<open>Theorems: job listing\<close>

text \<open>
  C10 (as stated, refuted). The claim covers every call that supplies both a batch id
  and a status. The empty string is a batch id the validator accepts, and the
  truthiness test sends it to the status branch: with batch id \<open>""\<close> the status filter
  decides the result (one completed job), while the same call without the status lists
  all jobs (two).
\<close>

theorem listJobs_status_ignored_counterexample:
  "map jid (r_jobs (listJobs dbOneCompleted None None (Some Completed) (Some []))) = [0] \<and>
   r_total (listJobs dbOneCompleted None None (Some Completed) (Some [])) = 1 \<and>
   map jid (r_jobs (listJobs dbOneCompleted None None None (Some []))) = [1, 0] \<and>
   r_total (listJobs dbOneCompleted None None None (Some [])) = 2"
  by (simp add: listJobs_def by_status_def by_createdAt_desc_def js_slice_def
      dbOneCompleted_def store_defs patch_defs)

text \<open>
  C10 (amended). For every database and every call of listJobs that supplies a
  non-empty batch id together with a status, the status has no effect: the whole result
  (items, total, limit, offset) is that of the call with the same batch id alone, so the
  items may have any status.
\<close>

theorem listJobs_status_ignored:
  "b \<noteq> [] \<Longrightarrow> listJobs d l off (Some st) (Some b) = listJobs d l off None (Some b)"
  by (simp add: listJobs_def)

theorem listJobs_status_ignored_witness:
  "''b1'' \<noteq> [] \<and>
   listJobs dbOneCompleted None None (Some Failed) (Some ''b1'')
     = listJobs dbOneCompleted None None None (Some ''b1'') \<and>
   map status (r_jobs (listJobs dbOneCompleted None None (Some Failed) (Some ''b1'')))
     = [Completed, Pending]"
proof -
  have "map status (r_jobs (listJobs dbOneCompleted None None None (Some ''b1''))) = [Completed, Pending]"
    by (simp add: listJobs_def by_batchId_def js_slice_def dbOneCompleted_def store_defs patch_defs)
  with listJobs_status_ignored [of "''b1''" dbOneCompleted None None Failed] show ?thesis
    by simp
qed

section \<open>Theorems: preset store\<close>

lemma unique_Some_iff: "unique xs = Inr (Some x) \<longleftrightarrow> xs = [x]"
  by (auto simp: unique_def split: list.splits)

lemma unique_None_iff: "unique xs = Inr None \<longleftrightarrow> xs = []"
  by (auto simp: unique_def split: list.splits)

lemma presets_create_ok:
  assumes "fst (presets_create d now X c) = Inr i"
  shows "snd (presets_create d now X c) =
           d\<lparr>presets := presets d @ [\<lparr>preset_id = i, preset_name = X, preset_config = c,
                preset_createdAt = now, preset_updatedAt = now\<rparr>], nextId := Suc (nextId d)\<rparr>"
    and "by_name d X = []"
  using assms
  by (auto simp: presets_create_def db_insert_preset_def unique_None_iff
      split: sum.splits option.splits)

lemma filter_map_patch:
  "(\<And>p. preset_name (f p) = preset_name p) \<Longrightarrow>
   filter (\<lambda>p. preset_name p = n) (map (\<lambda>p. if preset_id p = i then f p else p) ps) =
     map (\<lambda>p. if preset_id p = i then f p else p) (filter (\<lambda>p. preset_name p = n) ps)"
  by (induction ps) auto

lemma updatePreset_by_name:
  assumes "unique (by_name d N) = Inr (Some p)"
  shows "fst (updatePreset d now N c) = Inr ()"
    and "by_name (snd (updatePreset d now N c)) N = [patchPreset now c p]"
proof -
  from assms have bn: "by_name d N = [p]" by (simp add: unique_Some_iff)
  have "filter (\<lambda>q. preset_name q = N)
          (map (\<lambda>q. if preset_id q = preset_id p then patchPreset now c q else q) (presets d)) =
        map (\<lambda>q. if preset_id q = preset_id p then patchPreset now c q else q)
          (filter (\<lambda>q. preset_name q = N) (presets d))"
    by (rule filter_map_patch) (simp add: patchPreset_def)
  with bn assms show "by_name (snd (updatePreset d now N c)) N = [patchPreset now c p]"
    by (simp add: updatePreset_def db_patch_preset_def by_name_def)
  from assms show "fst (updatePreset d now N c) = Inr ()"
    by (simp add: updatePreset_def)
qed

text \<open>
  C8. For every database, name \<open>X\<close> and configurations \<open>c\<close>, \<open>c'\<close>: when
  \<open>createPreset X c\<close> succeeds, a second \<open>createPreset X c'\<close> on the resulting store fails
  with the duplicate-name error and leaves the store as it was; the presets named \<open>X\<close>
  are then exactly the first one, with the configuration \<open>c\<close> and the timestamps of its
  creation.
\<close>

theorem createPreset_twice:
  assumes "fst (createPreset d now X c) = Inr i"
  shows "createPreset (snd (createPreset d now X c)) now' X c'
           = (Inl (JsError (duplicateNameMessage X)), snd (createPreset d now X c)) \<and>
         by_name (snd (createPreset d now X c)) X
           = [\<lparr>preset_id = i, preset_name = X, preset_config = c,
               preset_createdAt = now, preset_updatedAt = now\<rparr>]"
proof -
  let ?p = "\<lparr>preset_id = i, preset_name = X, preset_config = c,
             preset_createdAt = now, preset_updatedAt = now\<rparr>"
  let ?d' = "snd (createPreset d now X c)"
  from assms have valid: "\<not> (X = [] \<or> length (js_trim X) = 0)"
    by (auto simp: createPreset_def split: if_splits)
  with assms have ok: "fst (presets_create d now X c) = Inr i"
    by (simp add: createPreset_def)
  have d': "?d' = snd (presets_create d now X c)"
    using valid by (simp add: createPreset_def)
  have byname: "by_name ?d' X = [?p]"
    using presets_create_ok [OF ok] by (simp add: d' by_name_def)
  then have "unique (by_name ?d' X) = Inr (Some ?p)"
    by (simp add: unique_def)
  then have "presets_create ?d' now' X c' = (Inl (JsError (duplicateNameMessage X)), ?d')"
    by (simp add: presets_create_def)
  with valid byname show ?thesis
    by (simp add: createPreset_def)
qed

lemma createPreset_example: "createPreset emptyDb 1000 ''japan-urban'' cfgPro =
   (Inr 0, \<lparr>presets = [\<lparr>preset_id = 0, preset_name = ''japan-urban'', preset_config = cfgPro,
                preset_createdAt = 1000, preset_updatedAt = 1000\<rparr>], jobs = [], nextId = 1\<rparr>)"
  by (simp add: createPreset_def presets_create_def by_name_def unique_def emptyDb_def
      db_insert_preset_def js_trim_def js_whitespace_def)

theorem createPreset_twice_witness:
  "fst (createPreset emptyDb 1000 ''japan-urban'' cfgPro) = Inr 0 \<and>
   createPreset dbOnePreset 2000 ''japan-urban'' cfg0
     = (Inl (JsError (duplicateNameMessage ''japan-urban'')), dbOnePreset) \<and>
   map preset_config (by_name dbOnePreset ''japan-urban'') = [cfgPro]"
proof -
  have h: "fst (createPreset emptyDb 1000 ''japan-urban'' cfgPro) = Inr 0"
    by (simp add: createPreset_example)
  from createPreset_twice [OF h, of 2000 cfg0] h show ?thesis
    by (simp add: dbOnePreset_def)
qed

text \<open>
  C9 (as stated, refuted). The claim says an optional field absent from the new
  configuration is absent from the stored preset after updatePreset. The preset
  \<open>japan-urban\<close> is stored with a model version and an image size; updating it with
  \<open>cfg0\<close>, which has neither, succeeds and leaves both stored values in place.
\<close>

theorem updatePreset_replaces_counterexample:
  "fst (updatePreset dbOnePreset 2000 ''japan-urban'' cfg0) = Inr () \<and>
   modelVersion cfg0 = None \<and> imageSize cfg0 = None \<and>
   map (\<lambda>p. (modelVersion (preset_config p), imageSize (preset_config p)))
       (by_name (snd (updatePreset dbOnePreset 2000 ''japan-urban'' cfg0)) ''japan-urban'')
     = [(Some ''gemini-3-pro-image-preview'', Some ''2K'')]"
proof -
  let ?p = "\<lparr>preset_id = 0, preset_name = ''japan-urban'', preset_config = cfgPro,
             preset_createdAt = 1000, preset_updatedAt = 1000\<rparr>"
  have h: "unique (by_name dbOnePreset ''japan-urban'') = Inr (Some ?p)"
    by (simp add: dbOnePreset_def createPreset_example by_name_def unique_def)
  have "modelVersion cfg0 = None" "imageSize cfg0 = None"
    by (simp_all add: cfg0_def)
  moreover have "modelVersion (preset_config (patchPreset 2000 cfg0 ?p)) = Some ''gemini-3-pro-image-preview''"
    by (simp add: patchPreset_def mergeConfig_def patched_def cfgPro_def cfg0_def)
  moreover have "imageSize (preset_config (patchPreset 2000 cfg0 ?p)) = Some ''2K''"
    by (simp add: patchPreset_def mergeConfig_def patched_def cfgPro_def cfg0_def)
  ultimately show ?thesis
    using updatePreset_by_name [OF h, of 2000 cfg0] by simp
qed

text \<open>
  C9 (amended). For every existing preset named \<open>N\<close> and every new configuration \<open>c\<close>,
  updatePreset succeeds and patches the stored document: afterwards the one preset named
  \<open>N\<close> has every required configuration field equal to that of \<open>c\<close>; each optional field
  (\<open>ownLogoData\<close>, \<open>modelVersion\<close>, \<open>aspectRatio\<close>, \<open>imageSize\<close>) equal to that of \<open>c\<close>
  when \<open>c\<close> has it and to its previous stored value when \<open>c\<close> has not; \<open>updatedAt\<close> the
  time of the call; and its id, name and \<open>createdAt\<close> as before.
\<close>

theorem updatePreset_patches:
  assumes "unique (by_name d N) = Inr (Some p)"
  shows "fst (updatePreset d now N c) = Inr () \<and>
    (\<exists>q. by_name (snd (updatePreset d now N c)) N = [q] \<and>
       preset_id q = preset_id p \<and> preset_name q = N \<and>
       preset_createdAt q = preset_createdAt p \<and> preset_updatedAt q = now \<and>
       targetCountry (preset_config q) = targetCountry c \<and>
       additionalContext (preset_config q) = additionalContext c \<and>
       removeBranding (preset_config q) = removeBranding c \<and>
       addBrandingColors (preset_config q) = addBrandingColors c \<and>
       brandingColor (preset_config q) = brandingColor c \<and>
       addOwnLogo (preset_config q) = addOwnLogo c \<and>
       filenameFindPattern (preset_config q) = filenameFindPattern c \<and>
       filenameReplacePattern (preset_config q) = filenameReplacePattern c \<and>
       ownLogoData (preset_config q) = patched (ownLogoData c) (ownLogoData (preset_config p)) \<and>
       modelVersion (preset_config q) = patched (modelVersion c) (modelVersion (preset_config p)) \<and>
       aspectRatio (preset_config q) = patched (aspectRatio c) (aspectRatio (preset_config p)) \<and>
       imageSize (preset_config q) = patched (imageSize c) (imageSize (preset_config p)))"
proof -
  from assms have "by_name d N = [p]" by (simp add: unique_Some_iff)
  then have "p \<in> set (by_name d N)" by simp
  then have "preset_name p = N" by (simp add: by_name_def)
  then show ?thesis
    using updatePreset_by_name [OF assms, of now c]
    by (simp add: patchPreset_def mergeConfig_def)
qed

theorem updatePreset_patches_witness:
  "unique (by_name dbOnePreset ''japan-urban'') \<noteq> Inr None \<and>
   fst (updatePreset dbOnePreset 2000 ''japan-urban'' (cfg0\<lparr>aspectRatio := Some ''16:9''\<rparr>)) = Inr () \<and>
   (\<exists>q. by_name (snd (updatePreset dbOnePreset 2000 ''japan-urban'' (cfg0\<lparr>aspectRatio := Some ''16:9''\<rparr>)))
           ''japan-urban'' = [q] \<and>
        preset_updatedAt q = 2000 \<and> preset_createdAt q = 1000 \<and>
        aspectRatio (preset_config q) = Some ''16:9'' \<and>
        modelVersion (preset_config q) = Some ''gemini-3-pro-image-preview'')"
proof -
  let ?p = "\<lparr>preset_id = 0, preset_name = ''japan-urban'', preset_config = cfgPro,
             preset_createdAt = 1000, preset_updatedAt = 1000\<rparr>"
  have h: "unique (by_name dbOnePreset ''japan-urban'') = Inr (Some ?p)"
    by (simp add: dbOnePreset_def createPreset_example by_name_def unique_def)
  from updatePreset_patches [OF h, of 2000 "cfg0\<lparr>aspectRatio := Some ''16:9''\<rparr>"] h
  show ?thesis
    by (auto simp: patched_def cfg0_def cfgPro_def)
qed

section \<open>Theorems: filename deriver\<close>

lemma showNat_numeral:
  "showNat (numeral k) =
     (if (numeral k :: nat) < 10 then [digitChar (numeral k)]
      else showNat (numeral k div 10) @ [digitChar (numeral k mod 10)])"
  by (rule showNat.simps)

lemma js_split_nonempty: "js_split sep s \<noteq> []"
  by (induction s) (auto split: list.splits)

text \<open>
  The repetition matcher has fuel enough. A matcher of the model calls its continuation
  only on states at or after its own and within the input, so its result depends on the
  continuation there only; by induction on the fuel, any two amounts above the minimum
  plus the remaining input give the same result. The \<open>None\<close> of exhausted fuel is
  therefore never the result of \<open>matchR\<close>.
\<close>

lemma repeatMatcher_fuel:
  assumes m: "\<And>x c c'. fst x \<le> length inp \<Longrightarrow>
      (\<And>y. fst x \<le> fst y \<Longrightarrow> fst y \<le> length inp \<Longrightarrow> c y = c' y) \<Longrightarrow> m x c = m x c'"
  shows "fst x \<le> length inp \<Longrightarrow> mn + (length inp - fst x) < fuel \<Longrightarrow>
     mn + (length inp - fst x) < fuel' \<Longrightarrow>
     (\<And>y. fst x \<le> fst y \<Longrightarrow> fst y \<le> length inp \<Longrightarrow> c y = c' y) \<Longrightarrow>
     repeatMatcher m gs fuel mn mx g x c = repeatMatcher m gs fuel' mn mx g x c'"
proof (induction fuel arbitrary: fuel' mn mx x c c')
  case 0
  then show ?case by simp
next
  case (Suc f)
  from Suc.prems(3) obtain f' where f': "fuel' = Suc f'" by (cases fuel') auto
  let ?d = "\<lambda>y. if mn = 0 \<and> fst y = fst x then None
                 else repeatMatcher m gs f (mn - 1) (map_option (\<lambda>k. k - 1) mx) g y c"
  let ?d' = "\<lambda>y. if mn = 0 \<and> fst y = fst x then None
                 else repeatMatcher m gs f' (mn - 1) (map_option (\<lambda>k. k - 1) mx) g y c'"
  let ?xr = "(fst x, clearCaptures gs (snd x))"
  have cx: "c x = c' x" using Suc.prems(1,4) by simp
  have dd: "?d y = ?d' y" if y: "fst x \<le> fst y" "fst y \<le> length inp" for y
  proof (cases "mn = 0 \<and> fst y = fst x")
    case True
    then show ?thesis by simp
  next
    case False
    have b1: "(mn - 1) + (length inp - fst y) < f"
      using False y Suc.prems(2) by auto
    have b2: "(mn - 1) + (length inp - fst y) < f'"
      using False y Suc.prems(3) f' by auto
    have "repeatMatcher m gs f (mn - 1) (map_option (\<lambda>k. k - 1) mx) g y c
        = repeatMatcher m gs f' (mn - 1) (map_option (\<lambda>k. k - 1) mx) g y c'"
      using y Suc.prems(4) by (intro Suc.IH [OF y(2) b1 b2]) auto
    then show ?thesis unfolding if_not_P [OF False] .
  qed
  have md: "m ?xr ?d = m ?xr ?d'"
    using Suc.prems(1) dd by (intro m) auto
  show ?case
    unfolding f' repeatMatcher.simps Let_def md cx by (rule refl)
qed

lemma matchR_cont:
  "fst x \<le> length inp \<Longrightarrow>
   (\<And>y. fst x \<le> fst y \<Longrightarrow> fst y \<le> length inp \<Longrightarrow> c y = c' y) \<Longrightarrow>
   matchR r inp x c = matchR r inp x c'"
proof (induction r arbitrary: x c c')
  case (RGroup n r)
  show ?case
    using RGroup.prems by (simp, intro RGroup.IH) auto
next
  case (RCat a b)
  have "matchR b inp y c = matchR b inp y c'" if "fst x \<le> fst y" "fst y \<le> length inp" for y
    using that RCat.prems by (intro RCat.IH(2)) auto
  then show ?case
    using RCat.prems by (simp, intro RCat.IH(1)) auto
next
  case (RAlt a b)
  have "matchR a inp x c = matchR a inp x c'" "matchR b inp x c = matchR b inp x c'"
    using RAlt.prems by (auto intro: RAlt.IH)
  then show ?case by (simp cong: option.case_cong)
next
  case (RRep mn mx g r)
  have "repeatMatcher (matchR r inp) (groupsOf r) (mn + (length inp - fst x) + 1) mn mx g x c =
        repeatMatcher (matchR r inp) (groupsOf r) (mn + (length inp - fst x) + 1) mn mx g x c'"
    by (rule repeatMatcher_fuel [where inp = inp, OF RRep.IH]) (use RRep.prems in auto)
  then show ?case by simp
qed (auto simp: oneChar_def)

lemma repeatMatcher_enough_fuel:
  assumes "fst x \<le> length inp" and "mn + (length inp - fst x) < fuel"
  shows "repeatMatcher (matchR r inp) (groupsOf r) fuel mn mx g x c = matchR (RRep mn mx g r) inp x c"
proof -
  have "repeatMatcher (matchR r inp) (groupsOf r) fuel mn mx g x c =
        repeatMatcher (matchR r inp) (groupsOf r) (mn + (length inp - fst x) + 1) mn mx g x c"
    by (rule repeatMatcher_fuel [where inp = inp, OF matchR_cont]) (use assms in auto)
  then show ?thesis by simp
qed

lemma showNat_one: "showNat (Suc 0) = ''1''"
  by (simp add: showNat.simps [of "Suc 0"] digitChar_def)

lemma digitChar_props:
  assumes "k < 10"
  shows "isDigit (digitChar k)" and "digitVal (digitChar k) = k"
    and "digitChar k = CHR ''0'' \<longleftrightarrow> k = 0"
proof -
  from assms have "k \<in> {0,1,2,3,4,5,6,7,8,9}" by auto
  then show "isDigit (digitChar k)" "digitVal (digitChar k) = k"
    "digitChar k = CHR ''0'' \<longleftrightarrow> k = 0"
    by (auto simp: digitChar_def isDigit_def digitVal_def)
qed

lemma showNat_digits: "list_all isDigit (showNat n) \<and> showNat n \<noteq> []"
proof (induction n rule: showNat.induct)
  case (1 n)
  show ?case
  proof (cases "n < 10")
    case True
    then show ?thesis by (simp add: showNat.simps [of n] digitChar_props)
  next
    case False
    with 1 show ?thesis by (simp add: showNat.simps [of n] digitChar_props)
  qed
qed

lemma decimalValue_snoc: "decimalValue (ds @ [c]) = 10 * decimalValue ds + digitVal c"
  by (simp add: decimalValue_def)

text \<open>The digits are those of the number: reading them back gives it, and there is no leading zero.\<close>

lemma decimalValue_showNat: "decimalValue (showNat n) = n"
proof (induction n rule: showNat.induct)
  case (1 n)
  show ?case
  proof (cases "n < 10")
    case True
    then show ?thesis
      by (simp add: showNat.simps [of n] decimalValue_def digitChar_props)
  next
    case False
    with 1 show ?thesis
      by (simp add: showNat.simps [of n] decimalValue_snoc digitChar_props)
  qed
qed

lemma showNat_no_leading_zero: "n = 0 \<or> hd (showNat n) \<noteq> CHR ''0''"
proof (induction n rule: showNat.induct)
  case (1 n)
  show ?case
  proof (cases "n < 10")
    case True
    then show ?thesis by (auto simp: showNat.simps [of n] digitChar_props)
  next
    case False
    then have "n div 10 \<noteq> 0" by simp
    with 1 False have "hd (showNat (n div 10)) \<noteq> CHR ''0''" by simp
    moreover have "showNat (n div 10) \<noteq> []" using showNat_digits by simp
    ultimately show ?thesis using False by (simp add: showNat.simps [of n])
  qed
qed

lemma isDigit_not_dollar: "isDigit c \<Longrightarrow> c \<noteq> CHR ''$''"
  by (auto simp: isDigit_def)

lemma getSubstitution_plain:
  "c \<noteq> CHR ''$'' \<Longrightarrow> getSubstitution m str (c # cs) = c # getSubstitution m str cs"
  by (cases cs) simp_all

lemma getSubstitution_digits:
  "list_all isDigit ds \<Longrightarrow> getSubstitution m str (ds @ rest) = ds @ getSubstitution m str rest"
  by (induction ds) (simp_all add: getSubstitution_plain isDigit_not_dollar)

text \<open>
  The first pass replaces every occurrence and nothing else. No occurrence of the token
  can overlap another (no proper prefix of \<open>TIMESTAMP\<close> is a suffix of it), so the pass
  distributes over any occurrence, and a text without the token is left as it is.
\<close>

lemma timestampToken_no_overlap:
  assumes "prefix timestampToken (a @ timestampToken @ b)" and "a \<noteq> []"
  shows "prefix timestampToken a"
proof (rule ccontr)
  assume n: "\<not> prefix timestampToken a"
  from assms(1) have "prefix timestampToken a \<or>
      (\<exists>us. timestampToken = a @ us \<and> prefix us (timestampToken @ b))"
    by (simp only: prefix_append)
  with n obtain us where us: "timestampToken = a @ us" and p: "prefix us (timestampToken @ b)"
    by blast
  from us assms(2)
  have "us \<in> {''IMESTAMP'', ''MESTAMP'', ''ESTAMP'', ''STAMP'', ''TAMP'', ''AMP'', ''MP'', ''P'', []}"
    by (auto simp: timestampToken_def Cons_eq_append_conv)
  with p us n show False by (auto simp: timestampToken_def)
qed

lemma replaceTimestamp_token:
  "replaceTimestamp ts (timestampToken @ x) = ts @ replaceTimestamp ts x"
  by (simp add: timestampToken_def)

lemma replaceTimestamp_other:
  "\<not> prefix timestampToken (c # cs) \<Longrightarrow> replaceTimestamp ts (c # cs) = c # replaceTimestamp ts cs"
  unfolding timestampToken_def by (simp only: replaceTimestamp.simps if_False)

lemma replaceTimestamp_distrib_token:
  "replaceTimestamp ts (a @ timestampToken @ b) = replaceTimestamp ts a @ ts @ replaceTimestamp ts b"
proof (induction ts a rule: replaceTimestamp.induct)
  case (1 ts)
  show ?case by (simp add: replaceTimestamp_token)
next
  case (2 ts c cs)
  show ?case
  proof (cases "prefix timestampToken (c # cs)")
    case True
    then obtain r where r: "c # cs = timestampToken @ r" by (auto simp: prefix_def)
    then have d: "drop 8 cs = r" by (simp add: timestampToken_def)
    from True have "prefix ''TIMESTAMP'' (c # cs)" unfolding timestampToken_def .
    then have "replaceTimestamp ts (drop 8 cs @ timestampToken @ b)
        = replaceTimestamp ts (drop 8 cs) @ ts @ replaceTimestamp ts b"
      by (rule "2.IH"(1))
    then have ih: "replaceTimestamp ts (r @ timestampToken @ b)
        = replaceTimestamp ts r @ ts @ replaceTimestamp ts b"
      by (simp only: d)
    have "replaceTimestamp ts ((c # cs) @ timestampToken @ b)
        = replaceTimestamp ts (timestampToken @ (r @ timestampToken @ b))"
      by (simp only: r append_assoc)
    also have "\<dots> = ts @ replaceTimestamp ts r @ ts @ replaceTimestamp ts b"
      by (simp only: replaceTimestamp_token ih)
    also have "\<dots> = replaceTimestamp ts (c # cs) @ ts @ replaceTimestamp ts b"
      by (simp only: r replaceTimestamp_token append_assoc)
    finally show ?thesis .
  next
    case False
    then have "\<not> prefix ''TIMESTAMP'' (c # cs)" unfolding timestampToken_def .
    then have ih: "replaceTimestamp ts (cs @ timestampToken @ b)
        = replaceTimestamp ts cs @ ts @ replaceTimestamp ts b"
      by (rule "2.IH"(2))
    have "\<not> prefix timestampToken ((c # cs) @ timestampToken @ b)"
      using False timestampToken_no_overlap [of "c # cs" b] by blast
    then have "\<not> prefix timestampToken (c # (cs @ timestampToken @ b))"
      unfolding append_Cons .
    then have "replaceTimestamp ts (c # (cs @ timestampToken @ b))
        = c # replaceTimestamp ts (cs @ timestampToken @ b)"
      by (rule replaceTimestamp_other)
    then show ?thesis
      by (simp only: append_Cons ih replaceTimestamp_other [OF False])
  qed
qed

lemma replaceTimestamp_absent_token:
  "\<not> (\<exists>a b. s = a @ timestampToken @ b) \<Longrightarrow> replaceTimestamp ts s = s"
proof (induction ts s rule: replaceTimestamp.induct)
  case (1 ts)
  show ?case by simp
next
  case (2 ts c cs)
  have np: "\<not> prefix timestampToken (c # cs)"
  proof
    assume "prefix timestampToken (c # cs)"
    then obtain r where "c # cs = [] @ timestampToken @ r" by (auto simp: prefix_def)
    with "2.prems" show False by blast
  qed
  then have np': "\<not> prefix ''TIMESTAMP'' (c # cs)" unfolding timestampToken_def .
  have "\<not> (\<exists>a b. cs = a @ timestampToken @ b)"
  proof
    assume "\<exists>a b. cs = a @ timestampToken @ b"
    then obtain a b where "cs = a @ timestampToken @ b" by blast
    then have "c # cs = (c # a) @ timestampToken @ b" by simp
    with "2.prems" show False by blast
  qed
  then have "replaceTimestamp ts cs = cs" by (rule "2.IH"(2) [OF np'])
  then show ?case by (simp only: replaceTimestamp_other [OF np])
qed

lemma replaceTimestamp_distrib:
  "replaceTimestamp ts (a @ ''TIMESTAMP'' @ b) = replaceTimestamp ts a @ ts @ replaceTimestamp ts b"
  by (rule replaceTimestamp_distrib_token [unfolded timestampToken_def])

lemma replaceTimestamp_absent:
  "\<not> (\<exists>a b. s = a @ ''TIMESTAMP'' @ b) \<Longrightarrow> replaceTimestamp ts s = s"
  by (rule replaceTimestamp_absent_token [unfolded timestampToken_def])

lemma replaceTimestamp_example:
  "replaceTimestamp ts ''neonLED_$1_TIMESTAMP.png'' = ''neonLED_$1_'' @ ts @ ''.png''"
  by simp

lemma hasExtension_png: "hasExtension (xs @ ''.png'')"
  by (simp add: hasExtension_def toLowerAscii_def suffix_def)

lemma compile_example: "js_compile examplePattern = Some exampleRegex"
  by code_simp

lemma exec_example:
  "js_exec exampleRegex ''inhale-exhale-customneon-mintgreen.jpg'' =
   Some \<lparr>m_index = 0, m_text = ''inhale-exhale-customneon-mintgreen.jpg'',
          m_captures = [Some ''mintgreen''], m_groups = None\<rparr>"
  by code_simp

lemma subst_example:
  assumes "list_all isDigit ds"
  shows "getSubstitution \<lparr>m_index = 0, m_text = t, m_captures = [Some ''mintgreen''], m_groups = None\<rparr> str
     (''neonLED_$1_'' @ ds @ ''.png'') = ''neonLED_mintgreen_'' @ ds @ ''.png''"
proof -
  have "getSubstitution \<lparr>m_index = 0, m_text = t, m_captures = [Some ''mintgreen''], m_groups = None\<rparr> str
     (CHR ''$'' # CHR ''1'' # CHR ''_'' # (ds @ ''.png'')) = ''mintgreen_'' @ ds @ ''.png''"
    using assms by (simp add: isDigit_def digitVal_def captureText_def getSubstitution_plain getSubstitution_digits)
  then show ?thesis
    by (simp add: getSubstitution_plain)
qed

lemma generateOutputFilename_match:
  assumes "findPattern \<noteq> []" "replacePattern \<noteq> []"
    and "compile eng findPattern = Some rx"
    and "exec eng rx (workingName originalName) = Some m"
  shows "generateOutputFilename eng now originalName findPattern replacePattern =
           withExtension (js_replace (Some m) (workingName originalName)
              (replaceTimestamp (showNat now) replacePattern))"
  using assms by (simp add: generateOutputFilename_def Let_def)

lemma generateOutputFilename_default:
  assumes "findPattern = [] \<or> compile eng findPattern = None \<or>
     (\<exists>rx. compile eng findPattern = Some rx \<and> exec eng rx (workingName originalName) = None)"
  shows "generateOutputFilename eng now originalName findPattern replacePattern = defaultName now"
  using assms by (auto simp: generateOutputFilename_def Let_def split: option.splits)

lemma derived_example_name:
  "generateOutputFilename jsRegex t ''inhale-exhale-customneon-mintgreen.jpg'' examplePattern
       ''neonLED_$1_TIMESTAMP.png''
     = ''neonLED_mintgreen_'' @ showNat t @ ''.png''"
proof -
  let ?name = "''inhale-exhale-customneon-mintgreen.jpg''"
  let ?m = "\<lparr>m_index = 0, m_text = ?name, m_captures = [Some ''mintgreen''], m_groups = None\<rparr>"
  have w: "workingName ?name = ?name"
    by (simp add: workingName_def)
  have ne: "examplePattern \<noteq> []" by (simp add: examplePattern_def)
  have c: "compile jsRegex examplePattern = Some exampleRegex"
    by (simp add: jsRegex_def compile_example)
  have e: "exec jsRegex exampleRegex (workingName ?name) = Some ?m"
    by (simp only: w) (simp add: jsRegex_def exec_example)
  have d: "list_all isDigit (showNat t)"
    using showNat_digits [of t] by simp
  have r: "js_replace (Some ?m) ?name (replaceTimestamp (showNat t) ''neonLED_$1_TIMESTAMP.png'')
             = ''neonLED_mintgreen_'' @ showNat t @ ''.png''"
    unfolding replaceTimestamp_example js_replace_def
    using subst_example [OF d, of ?name ?name] by simp
  have "generateOutputFilename jsRegex t ?name examplePattern ''neonLED_$1_TIMESTAMP.png''
          = withExtension (js_replace (Some ?m) (workingName ?name)
              (replaceTimestamp (showNat t) ''neonLED_$1_TIMESTAMP.png''))"
    by (rule generateOutputFilename_match [OF ne _ c e]) simp
  also have "\<dots> = withExtension (''neonLED_mintgreen_'' @ showNat t @ ''.png'')"
    by (simp only: w r)
  also have "\<dots> = ''neonLED_mintgreen_'' @ showNat t @ ''.png''"
    using hasExtension_png [of "''neonLED_mintgreen_'' @ showNat t"]
    by (simp add: withExtension_def)
  finally show ?thesis .
qed

text \<open>
  C5. With the clock at any \<open>t\<close>, the deriver applied to
  \<open>inhale-exhale-customneon-mintgreen.jpg\<close>, the example find pattern and the template
  \<open>neonLED_$1_TIMESTAMP.png\<close> returns \<open>neonLED_mintgreen_\<close>, the decimal digits of \<open>t\<close>
  and \<open>.png\<close>: at least one character, all digits, with the value \<open>t\<close> and no leading
  zero. At the clock reading 1700000000000 the result is
  \<open>neonLED_mintgreen_1700000000000.png\<close>. The result is a function of the three arguments
  and the clock reading.
\<close>

theorem generateOutputFilename_example:
  "generateOutputFilename jsRegex t ''inhale-exhale-customneon-mintgreen.jpg'' examplePattern
       ''neonLED_$1_TIMESTAMP.png''
     = ''neonLED_mintgreen_'' @ showNat t @ ''.png'' \<and>
   showNat t \<noteq> [] \<and> list_all isDigit (showNat t) \<and>
   decimalValue (showNat t) = t \<and> (t = 0 \<or> hd (showNat t) \<noteq> CHR ''0'') \<and>
   generateOutputFilename jsRegex 1700000000000 ''inhale-exhale-customneon-mintgreen.jpg''
       examplePattern ''neonLED_$1_TIMESTAMP.png''
     = ''neonLED_mintgreen_1700000000000.png''"
proof -
  have "showNat 1700000000000 = ''1700000000000''"
    by (simp add: showNat_numeral showNat_one digitChar_def)
  then have "generateOutputFilename jsRegex 1700000000000 ''inhale-exhale-customneon-mintgreen.jpg''
       examplePattern ''neonLED_$1_TIMESTAMP.png'' = ''neonLED_mintgreen_1700000000000.png''"
    using derived_example_name [of 1700000000000] by simp
  then show ?thesis
    using derived_example_name [of t] showNat_digits [of t]
      decimalValue_showNat [of t] showNat_no_leading_zero [of t]
    by simp
qed

text \<open>
  C6. When both patterns are non-empty, the find pattern compiles and the working name
  matches, the result is built in two passes in this order: the clock reading replaces
  every \<open>TIMESTAMP\<close> of the replace template, and the capture-group substitution of the
  match is then applied to the template so obtained; the match is replaced by that
  expansion in the working name, and \<open>.png\<close> is appended unless an image extension is
  there. The first pass replaces every occurrence of the token (it distributes over any
  occurrence) and changes nothing else (a template without the token is unchanged). A
  \<open>$n\<close> or \<open>$<name>\<close> reference is therefore resolved after the \<open>TIMESTAMP\<close> pass:
  captured text is copied as it is, also when it contains \<open>TIMESTAMP\<close>.
\<close>

theorem generateOutputFilename_two_pass:
  assumes "findPattern \<noteq> []" and "replacePattern \<noteq> []"
    and "compile eng findPattern = Some rx"
    and "exec eng rx (workingName originalName) = Some m"
  shows "generateOutputFilename eng now originalName findPattern replacePattern =
     withExtension
       (take (m_index m) (workingName originalName)
        @ getSubstitution m (workingName originalName) (replaceTimestamp (showNat now) replacePattern)
        @ drop (m_index m + length (m_text m)) (workingName originalName)) \<and>
     replaceTimestamp (showNat now) (a @ ''TIMESTAMP'' @ b)
       = replaceTimestamp (showNat now) a @ showNat now @ replaceTimestamp (showNat now) b \<and>
     (\<not> (\<exists>a b. s = a @ ''TIMESTAMP'' @ b) \<longrightarrow> replaceTimestamp (showNat now) s = s)"
  using generateOutputFilename_match [OF assms] replaceTimestamp_distrib replaceTimestamp_absent
  by (simp add: js_replace_def)

lemma exec_shot:
  "js_exec exampleRegex ''shot-TIMESTAMP.jpg'' =
     Some \<lparr>m_index = 0, m_text = ''shot-TIMESTAMP.jpg'', m_captures = [Some ''TIMESTAMP''],
            m_groups = None\<rparr>"
  by code_simp

lemma workingName_shot: "workingName ''http://h/x/shot-TIMESTAMP.jpg?v=1'' = ''shot-TIMESTAMP.jpg''"
  by (simp add: workingName_def)

lemma compile_named: "js_compile namedPattern = Some namedRegex"
  by code_simp

lemma exec_named:
  "js_exec namedRegex ''a-red.jpg'' =
     Some \<lparr>m_index = 2, m_text = ''red'', m_captures = [Some ''red''],
            m_groups = Some [(''c'', Some ''red'')]\<rparr>"
  by code_simp

lemma showNat_1000: "showNat 1000 = ''1000''"
  by (simp add: showNat_numeral showNat_one digitChar_def)

theorem generateOutputFilename_two_pass_witness:
  "examplePattern \<noteq> [] \<and> namedPattern \<noteq> [] \<and>
   compile jsRegex examplePattern = Some exampleRegex \<and>
   exec jsRegex exampleRegex (workingName ''http://h/x/shot-TIMESTAMP.jpg?v=1'')
     = Some \<lparr>m_index = 0, m_text = ''shot-TIMESTAMP.jpg'', m_captures = [Some ''TIMESTAMP''],
              m_groups = None\<rparr> \<and>
   replaceTimestamp (showNat 1000) ''TIMESTAMP_$1_TIMESTAMP'' = ''1000_$1_1000'' \<and>
   generateOutputFilename jsRegex 1000 ''http://h/x/shot-TIMESTAMP.jpg?v=1'' examplePattern
       ''TIMESTAMP_$1_TIMESTAMP''
     = ''1000_TIMESTAMP_1000.png'' \<and>
   groupsBeforeTimestamp
       \<lparr>m_index = 0, m_text = ''shot-TIMESTAMP.jpg'', m_captures = [Some ''TIMESTAMP''], m_groups = None\<rparr>
       1000 ''shot-TIMESTAMP.jpg'' ''TIMESTAMP_$1_TIMESTAMP''
     = ''1000_1000_1000.png'' \<and>
   compile jsRegex namedPattern = Some namedRegex \<and>
   exec jsRegex namedRegex (workingName ''a-red.jpg'')
     = Some \<lparr>m_index = 2, m_text = ''red'', m_captures = [Some ''red''],
              m_groups = Some [(''c'', Some ''red'')]\<rparr> \<and>
   generateOutputFilename jsRegex 1000 ''a-red.jpg'' namedPattern ''x_$<c>_TIMESTAMP''
     = ''a-x_red_1000.jpg'' \<and>
   replaceTimestamp (showNat 1000) ''x_$<c>'' = ''x_$<c>''"
proof -
  let ?m = "\<lparr>m_index = 0, m_text = ''shot-TIMESTAMP.jpg'', m_captures = [Some ''TIMESTAMP''],
             m_groups = None\<rparr>"
  let ?n = "\<lparr>m_index = 2, m_text = ''red'', m_captures = [Some ''red''],
             m_groups = Some [(''c'', Some ''red'')]\<rparr>"
  have ne: "examplePattern \<noteq> []" by (simp add: examplePattern_def)
  have nn: "namedPattern \<noteq> []" by (simp add: namedPattern_def)
  have c: "compile jsRegex examplePattern = Some exampleRegex"
    by (simp add: jsRegex_def compile_example)
  have e: "exec jsRegex exampleRegex (workingName ''http://h/x/shot-TIMESTAMP.jpg?v=1'') = Some ?m"
    by (simp only: workingName_shot) (simp add: jsRegex_def exec_shot)
  have cn: "compile jsRegex namedPattern = Some namedRegex"
    by (simp add: jsRegex_def compile_named)
  have wn: "workingName ''a-red.jpg'' = ''a-red.jpg''"
    by (simp add: workingName_def)
  have en: "exec jsRegex namedRegex (workingName ''a-red.jpg'') = Some ?n"
    by (simp only: wn) (simp add: jsRegex_def exec_named)
  have t: "replaceTimestamp (showNat 1000) ''TIMESTAMP_$1_TIMESTAMP'' = ''1000_$1_1000''"
    by (simp add: showNat_1000)
  have tn: "replaceTimestamp (showNat 1000) ''x_$<c>_TIMESTAMP'' = ''x_$<c>_1000''"
    by (simp add: showNat_1000)
  have t0: "replaceTimestamp (showNat 1000) ''x_$<c>'' = ''x_$<c>''"
    by simp
  have g: "getSubstitution ?m ''shot-TIMESTAMP.jpg'' ''1000_$1_1000'' = ''1000_TIMESTAMP_1000''"
    by (simp add: isDigit_def digitVal_def captureText_def)
  have gn: "getSubstitution ?n ''a-red.jpg'' ''x_$<c>_1000'' = ''x_red_1000''"
    by (simp add: isDigit_def digitVal_def namedText_def)
  have x: "withExtension ''1000_TIMESTAMP_1000'' = ''1000_TIMESTAMP_1000.png''"
    by (simp add: withExtension_def hasExtension_def toLowerAscii_def suffix_def)
  have xn: "withExtension ''a-x_red_1000.jpg'' = ''a-x_red_1000.jpg''"
    by (simp add: withExtension_def hasExtension_def toLowerAscii_def suffix_def)
  have 1: "generateOutputFilename jsRegex 1000 ''http://h/x/shot-TIMESTAMP.jpg?v=1'' examplePattern
             ''TIMESTAMP_$1_TIMESTAMP'' = ''1000_TIMESTAMP_1000.png''"
    using generateOutputFilename_two_pass [OF ne _ c e, of "''TIMESTAMP_$1_TIMESTAMP''" 1000]
    unfolding workingName_shot t g using x by simp
  have 2: "generateOutputFilename jsRegex 1000 ''a-red.jpg'' namedPattern ''x_$<c>_TIMESTAMP''
             = ''a-x_red_1000.jpg''"
    using generateOutputFilename_two_pass [OF nn _ cn en, of "''x_$<c>_TIMESTAMP''" 1000]
    unfolding wn tn gn using xn by simp
  have r1: "getSubstitution ?m ''shot-TIMESTAMP.jpg'' ''TIMESTAMP_$1_TIMESTAMP'' = ''TIMESTAMP_TIMESTAMP_TIMESTAMP''"
    by (simp add: isDigit_def digitVal_def captureText_def)
  have r2: "replaceTimestamp (showNat 1000) ''TIMESTAMP_TIMESTAMP_TIMESTAMP'' = ''1000_1000_1000''"
    by (simp add: showNat_1000)
  have x3: "withExtension ''1000_1000_1000'' = ''1000_1000_1000.png''"
    by (simp add: withExtension_def hasExtension_def toLowerAscii_def suffix_def)
  have 3: "groupsBeforeTimestamp ?m 1000 ''shot-TIMESTAMP.jpg'' ''TIMESTAMP_$1_TIMESTAMP''
             = ''1000_1000_1000.png''"
    unfolding groupsBeforeTimestamp_def js_replace_def using r1 r2 x3 by simp
  from ne nn c e t 1 3 cn en 2 t0 show ?thesis by simp
qed

text \<open>
  C7. The deriver is a total function of its arguments and the clock reading, with no
  error result. When the find pattern is empty, or \<open>new RegExp\<close> throws on it, or it does
  not match the working name, the result is \<open>localized_\<close>, the decimal digits of the clock
  reading and \<open>.png\<close>.
\<close>

theorem generateOutputFilename_fallback:
  assumes "findPattern = [] \<or> compile eng findPattern = None \<or>
     (\<exists>rx. compile eng findPattern = Some rx \<and> exec eng rx (workingName originalName) = None)"
  shows "generateOutputFilename eng now originalName findPattern replacePattern
           = ''localized_'' @ showNat now @ ''.png''"
  using generateOutputFilename_default [OF assms] by (simp add: defaultName_def)

lemma compile_unterminated: "js_compile ''([a-z]+'' = None"
  by code_simp

lemma exec_nohyphen: "js_exec exampleRegex ''nohyphen.jpg'' = None"
  by code_simp

theorem generateOutputFilename_fallback_witness:
  "compile jsRegex ''([a-z]+'' = None \<and>
   generateOutputFilename jsRegex 1000 ''a-b.jpg'' ''([a-z]+'' ''$1_TIMESTAMP.png'' = ''localized_1000.png'' \<and>
   generateOutputFilename jsRegex 1000 ''a-b.jpg'' [] ''$1_TIMESTAMP.png'' = ''localized_1000.png'' \<and>
   compile jsRegex examplePattern = Some exampleRegex \<and>
   exec jsRegex exampleRegex (workingName ''nohyphen.jpg'') = None \<and>
   generateOutputFilename jsRegex 1000 ''nohyphen.jpg'' examplePattern ''$1_TIMESTAMP.png'' = ''localized_1000.png''"
proof -
  have c0: "compile jsRegex ''([a-z]+'' = None"
    by (simp add: jsRegex_def compile_unterminated)
  have c: "compile jsRegex examplePattern = Some exampleRegex"
    by (simp add: jsRegex_def compile_example)
  have e: "exec jsRegex exampleRegex (workingName ''nohyphen.jpg'') = None"
    by (simp add: workingName_def jsRegex_def exec_nohyphen)
  have s: "showNat 1000 = ''1000''"
    by (rule showNat_1000)
  have 1: "generateOutputFilename jsRegex 1000 ''a-b.jpg'' ''([a-z]+'' ''$1_TIMESTAMP.png'' = ''localized_1000.png''"
    using generateOutputFilename_fallback [of "''([a-z]+''" jsRegex "''a-b.jpg''" 1000 "''$1_TIMESTAMP.png''"] c0
    by (simp add: s)
  have 2: "generateOutputFilename jsRegex 1000 ''a-b.jpg'' [] ''$1_TIMESTAMP.png'' = ''localized_1000.png''"
    using generateOutputFilename_fallback [of "[]" jsRegex "''a-b.jpg''" 1000 "''$1_TIMESTAMP.png''"]
    by (simp add: s)
  have 3: "generateOutputFilename jsRegex 1000 ''nohyphen.jpg'' examplePattern ''$1_TIMESTAMP.png'' = ''localized_1000.png''"
    using generateOutputFilename_fallback [of examplePattern jsRegex "''nohyphen.jpg''" 1000 "''$1_TIMESTAMP.png''"] c e
    by (simp add: s)
  from c0 c e 1 2 3 show ?thesis by simp
qed

section \<open>Theorems: orchestrator\<close>














end
